theory Spec2Isabelle
  imports Main
begin

section \<open>ChronoLog: a size-rotated, optionally compressed log file writer\<close>

text \<open>
  A shallow embedding of \<^verbatim>\<open>chronolog.go\<close>. The logger is a record, the operating
  system is an explicit world (a file table, the standard error stream, the goroutines
  started so far), and every call that can fail in Go returns its error as a value.
  What the surroundings decide (the clock, the outcome of each system call, the library
  codecs) is read from an environment record that each operation receives.
\<close>

subsection \<open>Log levels\<close>

text \<open>\<^verbatim>\<open>type LogLevel int\<close>, with the five constants numbered by \<^verbatim>\<open>iota\<close>. Go's \<^verbatim>\<open>int\<close>
  has the width of the machine; every value of it is an integer, so what holds for all
  integers holds for all levels.\<close>

type_synonym LogLevel = int

definition LevelDebug :: LogLevel where "LevelDebug = 0"
definition LevelInfo :: LogLevel where "LevelInfo = 1"
definition LevelWarning :: LogLevel where "LevelWarning = 2"
definition LevelError :: LogLevel where "LevelError = 3"
definition LevelFatal :: LogLevel where "LevelFatal = 4"

text \<open>\<^verbatim>\<open>func (l LogLevel) String() string\<close>: a switch with a default branch.\<close>

definition LogLevel_String :: "LogLevel \<Rightarrow> string" where
  "LogLevel_String l =
     (if l = LevelDebug then ''DEBUG''
      else if l = LevelInfo then ''INFO''
      else if l = LevelWarning then ''WARNING''
      else if l = LevelError then ''ERROR''
      else if l = LevelFatal then ''FATAL''
      else ''UNKNOWN'')"

subsection \<open>Data\<close>

type_synonym path = string

text \<open>A Go \<^verbatim>\<open>error\<close> is modelled by its message; \<^verbatim>\<open>fmt.Errorf("ctx: %w", err)\<close>
  prepends the context.\<close>

type_synonym error = string

record LogEntry =
  Timestamp :: string
  Level :: string
  Message :: string

text \<open>Sizes are \<^verbatim>\<open>int64\<close> and durations are \<^verbatim>\<open>time.Duration\<close> (an \<^verbatim>\<open>int64\<close> of
  nanoseconds); both are integers here, and the two places where the source computes
  with them wrap explicitly (\<open>wrap64\<close>).\<close>

record Config =
  FilePath :: path
  MaxSize :: int
  MaxAge :: int
  CompressOldLogs :: bool
  JSONFormat :: bool
  TimestampFormat :: string
  RotationCheckInterval :: int

text \<open>An \<^verbatim>\<open>*os.File\<close>: the path it was opened at and whether it has been closed. The
  open log file is identified with its path: only this process writes to it, and the
  program renames the file only after closing its handle.\<close>

record File =
  fname :: path
  fclosed :: bool

text \<open>The logger; \<open>logFile\<close> is the field \<^verbatim>\<open>file\<close>. The mutex and the quit
  channel are left out: every operation below is one critical section, run to its end.\<close>

record Logger =
  config :: Config
  logFile :: "File option"
  currentSize :: int

text \<open>A file on disk: its bytes and its modification time.\<close>

record fdata =
  content :: string
  modTime :: int

text \<open>The goroutines a \<^verbatim>\<open>go\<close> statement has started: the rotation checker, the
  compression of one archive, one retention sweep.\<close>

datatype Task = RotationChecker | CompressTask path | CleanupTask

record World =
  fs :: "path \<rightharpoonup> fdata"
  stderr :: "string list"
  goroutines :: "Task list"

text \<open>What the surroundings decide during one operation: the clock, the library functions
  (\<^verbatim>\<open>Time.Format\<close>, \<^verbatim>\<open>json.Marshal\<close>, the gzip codec, \<^verbatim>\<open>filepath.Glob\<close>), and for
  each system call whether it fails. A failing write or copy also says what reached the
  disk before the error.\<close>

record Env =
  now :: int
  Format :: "int \<Rightarrow> string \<Rightarrow> string"
  Marshal :: "LogEntry \<Rightarrow> error + string"
  Gzip :: "string \<Rightarrow> string"
  Glob :: "string \<Rightarrow> (path \<rightharpoonup> fdata) \<Rightarrow> error + path list"
  mkdirFault :: "error option"
  openFault :: "error option"
  fstatFault :: "error option"
  writeFault :: "(nat \<times> error) option"
  closeFault :: "error option"
  renameFault :: "error option"
  srcOpenFault :: "error option"
  dstCreateFault :: "error option"
  copyFault :: "(string \<times> error) option"
  flushFault :: "(string \<times> error) option"
  statFault :: "path \<Rightarrow> error option"
  removeFault :: "path \<Rightarrow> error option"

definition RFC3339 :: string where
  "RFC3339 = ''2006-01-02T15:04:05Z07:00''"

definition newline :: char where
  "newline = CHR 0x0A"

text \<open>The value an \<^verbatim>\<open>int64\<close> computation yields: two's complement wrap-around.\<close>

definition wrap64 :: "int \<Rightarrow> int" where
  "wrap64 x = (x + 2 ^ 63) mod 2 ^ 64 - 2 ^ 63"

text \<open>\<^verbatim>\<open>fmt.Fprintf(os.Stderr, ...)\<close>.\<close>

definition eprint :: "string \<Rightarrow> World \<Rightarrow> World" where
  "eprint msg w = w\<lparr>stderr := stderr w @ [msg]\<rparr>"

subsection \<open>The operating system calls the program makes\<close>

text \<open>\<^verbatim>\<open>os.OpenFile(path, O_WRONLY|O_APPEND|O_CREATE, 0644)\<close>: creates an empty file when
  there is none.\<close>

definition os_OpenFile :: "Env \<Rightarrow> path \<Rightarrow> World \<Rightarrow> (error + File) \<times> World" where
  "os_OpenFile env p w =
     (case openFault env of
        Some e \<Rightarrow> (Inl e, w)
      | None \<Rightarrow>
          (Inr \<lparr>fname = p, fclosed = False\<rparr>,
           (case fs w p of
              Some d \<Rightarrow> w
            | None \<Rightarrow> w\<lparr>fs := (fs w)(p \<mapsto> \<lparr>content = [], modTime = now env\<rparr>)\<rparr>)))"

text \<open>\<^verbatim>\<open>file.Stat()\<close> on a handle.\<close>

definition File_Stat :: "Env \<Rightarrow> File \<Rightarrow> World \<Rightarrow> error + fdata" where
  "File_Stat env f w =
     (if fclosed f then Inl ''file already closed''
      else case fstatFault env of
        Some e \<Rightarrow> Inl e
      | None \<Rightarrow> (case fs w (fname f) of
                   None \<Rightarrow> Inl ''no such file or directory''
                 | Some d \<Rightarrow> Inr d))"

text \<open>\<^verbatim>\<open>info.Size()\<close>.\<close>

definition Size :: "fdata \<Rightarrow> int" where
  "Size d = int (length (content d))"

text \<open>\<^verbatim>\<open>(*os.File).Write\<close>, which \<^verbatim>\<open>fmt.Fprintf\<close> calls once with the formatted bytes and
  whose results it returns: the number of bytes written and the error. A nil or closed
  handle writes nothing. A failing write has written fewer bytes than it was given. The
  bytes of a file that no longer has a name are not visible anywhere.\<close>

definition File_Write :: "Env \<Rightarrow> File option \<Rightarrow> string \<Rightarrow> World \<Rightarrow> nat \<times> error option \<times> World" where
  "File_Write env fo b w =
     (case fo of
        None \<Rightarrow> (0, Some ''invalid argument'', w)
      | Some f \<Rightarrow>
          if fclosed f then (0, Some ''file already closed'', w)
          else
            (let n = (case writeFault env of
                        None \<Rightarrow> length b
                      | Some (k, e) \<Rightarrow> min k (length b - 1));
                 err = (case writeFault env of None \<Rightarrow> None | Some (k, e) \<Rightarrow> Some e);
                 w' = (case fs w (fname f) of
                         None \<Rightarrow> w
                       | Some d \<Rightarrow>
                           if n = 0 then w
                           else w\<lparr>fs := (fs w)(fname f \<mapsto>
                                  \<lparr>content = content d @ take n b, modTime = now env\<rparr>)\<rparr>)
             in (n, err, w')))"

text \<open>\<^verbatim>\<open>file.Close()\<close>: afterwards the handle is closed, whether or not an error is
  returned.\<close>

definition File_Close :: "Env \<Rightarrow> File option \<Rightarrow> error option \<times> File option" where
  "File_Close env fo =
     (case fo of
        None \<Rightarrow> (Some ''invalid argument'', None)
      | Some f \<Rightarrow>
          if fclosed f then (Some ''file already closed'', Some f)
          else (closeFault env, Some (f\<lparr>fclosed := True\<rparr>)))"

text \<open>\<^verbatim>\<open>os.Rename(old, new)\<close>: replaces a file that has the new name.\<close>

definition os_Rename :: "Env \<Rightarrow> path \<Rightarrow> path \<Rightarrow> World \<Rightarrow> error option \<times> World" where
  "os_Rename env old new w =
     (case renameFault env of
        Some e \<Rightarrow> (Some e, w)
      | None \<Rightarrow> (case fs w old of
                   None \<Rightarrow> (Some ''no such file or directory'', w)
                 | Some d \<Rightarrow> (None, w\<lparr>fs := ((fs w)(old := None))(new \<mapsto> d)\<rparr>)))"

text \<open>\<^verbatim>\<open>os.Open(src)\<close>, for reading.\<close>

definition os_Open :: "Env \<Rightarrow> path \<Rightarrow> World \<Rightarrow> error option" where
  "os_Open env p w =
     (case srcOpenFault env of
        Some e \<Rightarrow> Some e
      | None \<Rightarrow> (case fs w p of None \<Rightarrow> Some ''no such file or directory'' | Some d \<Rightarrow> None))"

text \<open>\<^verbatim>\<open>os.Create(dst)\<close>: creates the file or truncates it.\<close>

definition os_Create :: "Env \<Rightarrow> path \<Rightarrow> World \<Rightarrow> error option \<times> World" where
  "os_Create env p w =
     (case dstCreateFault env of
        Some e \<Rightarrow> (Some e, w)
      | None \<Rightarrow> (None, w\<lparr>fs := (fs w)(p \<mapsto> \<lparr>content = [], modTime = now env\<rparr>)\<rparr>))"

text \<open>\<^verbatim>\<open>os.Stat(path)\<close> and \<^verbatim>\<open>os.Remove(path)\<close>.\<close>

definition os_Stat :: "Env \<Rightarrow> path \<Rightarrow> World \<Rightarrow> error + fdata" where
  "os_Stat env p w =
     (case statFault env p of
        Some e \<Rightarrow> Inl e
      | None \<Rightarrow> (case fs w p of None \<Rightarrow> Inl ''no such file or directory'' | Some d \<Rightarrow> Inr d))"

definition os_Remove :: "Env \<Rightarrow> path \<Rightarrow> World \<Rightarrow> error option \<times> World" where
  "os_Remove env p w =
     (case removeFault env p of
        Some e \<Rightarrow> (Some e, w)
      | None \<Rightarrow> (case fs w p of
                   None \<Rightarrow> (Some ''no such file or directory'', w)
                 | Some d \<Rightarrow> (None, w\<lparr>fs := (fs w)(p := None)\<rparr>)))"

subsection \<open>Opening the log file and constructing the logger\<close>

text \<open>\<^verbatim>\<open>func (l *Logger) openFile() error\<close>. Directories are not part of the file table:
  \<^verbatim>\<open>os.MkdirAll\<close> only succeeds or fails.\<close>

definition openFile :: "Env \<Rightarrow> Logger \<times> World \<Rightarrow> error option \<times> Logger \<times> World" where
  "openFile env s =
     (let (l, w) = s in
      case mkdirFault env of
        Some e \<Rightarrow> (Some (''failed to create log directory: '' @ e), l, w)
      | None \<Rightarrow>
          (case os_OpenFile env (FilePath (config l)) w of
             (Inl e, w1) \<Rightarrow> (Some (''failed to create log directory: '' @ e), l, w1)
           | (Inr f, w1) \<Rightarrow>
               (case File_Stat env f w1 of
                  Inl e \<Rightarrow> (Some (''failed to get file info: '' @ e), l, w1)
                | Inr info \<Rightarrow> (None, l\<lparr>logFile := Some f, currentSize := Size info\<rparr>, w1))))"

text \<open>The defaults that \<^verbatim>\<open>New\<close> fills in: 50 MiB, one week, RFC 3339, one minute.\<close>

definition withDefaults :: "Config \<Rightarrow> Config" where
  "withDefaults c =
     (let c1 = (if MaxSize c = 0 then c\<lparr>MaxSize := 50 * 1024 * 1024\<rparr> else c);
          c2 = (if MaxAge c1 = 0 then c1\<lparr>MaxAge := 7 * 24 * 3600000000000\<rparr> else c1);
          c3 = (if TimestampFormat c2 = [] then c2\<lparr>TimestampFormat := RFC3339\<rparr> else c2);
          c4 = (if RotationCheckInterval c3 = 0
                then c3\<lparr>RotationCheckInterval := 60000000000\<rparr> else c3)
      in c4)"

text \<open>\<^verbatim>\<open>func New(config Config) (*Logger, error)\<close>: the error and a nil logger, or the
  logger, with the rotation checker started (what that goroutine does is
  \<open>rotationChecker\<close> below).\<close>

definition New :: "Env \<Rightarrow> Config \<Rightarrow> World \<Rightarrow> (error + Logger) \<times> World" where
  "New env c w =
     (let l = \<lparr>config = withDefaults c, logFile = None, currentSize = 0\<rparr> in
      case openFile env (l, w) of
        (Some err, l1, w1) \<Rightarrow> (Inl err, w1)
      | (None, l1, w1) \<Rightarrow> (Inr l1, w1\<lparr>goroutines := goroutines w1 @ [RotationChecker]\<rparr>))"

subsection \<open>Writing a record\<close>

text \<open>\<^verbatim>\<open>fmt.Sprintf("%s - [%s]: %s", entry.Timestamp, level.String(), message)\<close>
  followed by \<^verbatim>\<open>logLine += "\n"\<close>.\<close>

definition plainLine :: "string \<Rightarrow> string \<Rightarrow> string \<Rightarrow> string" where
  "plainLine ts lvl msg = ts @ '' - ['' @ lvl @ '']: '' @ msg @ [newline]"

text \<open>The entry that \<^verbatim>\<open>write\<close> builds. The timestamp is rendered with the constant
  \<^verbatim>\<open>time.RFC3339\<close>.\<close>

definition mkEntry :: "Env \<Rightarrow> LogLevel \<Rightarrow> string \<Rightarrow> LogEntry" where
  "mkEntry env level message =
     \<lparr>Timestamp = Format env (now env) RFC3339,
      Level = LogLevel_String level,
      Message = message\<rparr>"

text \<open>The line to append, or the error of \<^verbatim>\<open>json.Marshal\<close>.\<close>

definition formatLine :: "Env \<Rightarrow> Config \<Rightarrow> LogLevel \<Rightarrow> string \<Rightarrow> error + string" where
  "formatLine env c level message =
     (let entry = mkEntry env level message in
      if JSONFormat c then
        (case Marshal env entry of
           Inl e \<Rightarrow> Inl e
         | Inr jsonData \<Rightarrow> Inr (jsonData @ [newline]))
      else Inr (plainLine (Timestamp entry) (LogLevel_String level) message))"

text \<open>\<^verbatim>\<open>func (l *Logger) write(level LogLevel, message string)\<close>, here
  \<open>Logger_write\<close>: no result; both error branches print to standard error and return.\<close>

definition Logger_write :: "Env \<Rightarrow> LogLevel \<Rightarrow> string \<Rightarrow> Logger \<times> World \<Rightarrow> Logger \<times> World" where
  "Logger_write env level message s =
     (let (l, w) = s in
      case formatLine env (config l) level message of
        Inl e \<Rightarrow> (l, eprint (''failed to marshal log entry: '' @ e @ [newline]) w)
      | Inr logLine \<Rightarrow>
          (case File_Write env (logFile l) logLine w of
             (n, Some e, w1) \<Rightarrow>
               (l, eprint (''failed to write to log file: '' @ e @ [newline]) w1)
           | (n, None, w1) \<Rightarrow>
               (l\<lparr>currentSize := wrap64 (currentSize l + int n)\<rparr>, w1)))"

subsection \<open>Rotation\<close>

text \<open>\<^verbatim>\<open>func (l *Logger) rotate() error\<close>, here \<open>Logger_rotate\<close>. The two \<^verbatim>\<open>go\<close>
  statements add a goroutine to the world; what the goroutines do is \<open>compressTask\<close> and
  \<open>cleanupOldLogs\<close> below.\<close>

definition Logger_rotate :: "Env \<Rightarrow> Logger \<times> World \<Rightarrow> error option \<times> Logger \<times> World" where
  "Logger_rotate env s =
     (let (l, w) = s in
      case File_Close env (logFile l) of
        (Some e, fo) \<Rightarrow> (Some (''failed to close log file: '' @ e), l\<lparr>logFile := fo\<rparr>, w)
      | (None, fo) \<Rightarrow>
          (let l1 = l\<lparr>logFile := fo\<rparr>;
               backupName = FilePath (config l) @ ''.'' @ Format env (now env) RFC3339 in
           case os_Rename env (FilePath (config l)) backupName w of
             (Some e, w1) \<Rightarrow> (Some (''failed to rename log file: '' @ e), l1, w1)
           | (None, w1) \<Rightarrow>
               (let w2 = (if CompressOldLogs (config l)
                          then w1\<lparr>goroutines := goroutines w1 @ [CompressTask backupName]\<rparr>
                          else w1) in
                case openFile env (l1, w2) of
                  (Some e, l3, w3) \<Rightarrow> (Some (''failed to create new log file: '' @ e), l3, w3)
                | (None, l3, w3) \<Rightarrow>
                    (None, l3, w3\<lparr>goroutines := goroutines w3 @ [CleanupTask]\<rparr>))))"

text \<open>One iteration of the loop of \<^verbatim>\<open>rotationChecker\<close> that receives from the ticker. The
  first component of the result records whether \<^verbatim>\<open>rotate\<close> was called, and what it
  returned.\<close>

datatype tick_outcome = NotCalled | Called "error option"

definition rotationTick :: "Env \<Rightarrow> Logger \<times> World \<Rightarrow> tick_outcome \<times> Logger \<times> World" where
  "rotationTick env s =
     (let (l, w) = s in
      if currentSize l \<ge> MaxSize (config l) then
        (case Logger_rotate env s of
           (Some e, l1, w1) \<Rightarrow>
             (Called (Some e), l1, eprint (''failed to rotate log file: '' @ e @ [newline]) w1)
         | (None, l1, w1) \<Rightarrow> (Called None, l1, w1))
      else (NotCalled, l, w))"




subsection \<open>Compression\<close>

text \<open>Writing the file \<open>p\<close> through an open descriptor.\<close>

definition putFile :: "Env \<Rightarrow> path \<Rightarrow> string \<Rightarrow> World \<Rightarrow> World" where
  "putFile env p bytes w = w\<lparr>fs := (fs w)(p \<mapsto> \<lparr>content = bytes, modTime = now env\<rparr>)\<rparr>"

text \<open>The bytes that \<^verbatim>\<open>io.Copy\<close> reads from the source.\<close>

definition srcBytes :: "path \<Rightarrow> World \<Rightarrow> string" where
  "srcBytes p w = (case fs w p of None \<Rightarrow> [] | Some d \<Rightarrow> content d)"

text \<open>\<^verbatim>\<open>func (l *Logger) compressFile(src, dst string) error\<close>. The three deferred calls
  run when the function returns: \<^verbatim>\<open>gzWriter.Close()\<close> flushes the compressed stream and
  its trailer into the destination, then both files are closed; the errors of the
  deferred calls are discarded. So a failure of \<^verbatim>\<open>io.Copy\<close> is returned, and a failure
  of the final flush (\<open>flushFault\<close>) is not.\<close>

definition compressFile :: "Env \<Rightarrow> path \<Rightarrow> path \<Rightarrow> World \<Rightarrow> error option \<times> World" where
  "compressFile env src dst w =
     (case os_Open env src w of
        Some e \<Rightarrow> (Some (''failed to open source file: '' @ e), w)
      | None \<Rightarrow>
          (case os_Create env dst w of
             (Some e, w1) \<Rightarrow> (Some (''failed to create destination file: '' @ e), w1)
           | (None, w1) \<Rightarrow>
               (case copyFault env of
                  Some (part, e) \<Rightarrow> (Some (''failed to compress data '' @ e), putFile env dst part w1)
                | None \<Rightarrow>
                    (case flushFault env of
                       Some (part, e) \<Rightarrow> (None, putFile env dst part w1)
                     | None \<Rightarrow> (None, putFile env dst (Gzip env (srcBytes src w1)) w1)))))"

text \<open>The goroutine that \<^verbatim>\<open>rotate\<close> starts when \<^verbatim>\<open>CompressOldLogs\<close> is set.\<close>

definition compressTask :: "Env \<Rightarrow> path \<Rightarrow> World \<Rightarrow> World" where
  "compressTask env backupName w =
     (case compressFile env backupName (backupName @ ''.gz'') w of
        (Some e, w1) \<Rightarrow> eprint (''failed to compress log file: '' @ e @ [newline]) w1
      | (None, w1) \<Rightarrow>
          (case os_Remove env backupName w1 of
             (Some e, w2) \<Rightarrow> eprint (''failed to remove old log file: '' @ e @ [newline]) w2
           | (None, w2) \<Rightarrow> w2))"

subsection \<open>The retention sweep\<close>

text \<open>\<^verbatim>\<open>time.Now().Add(-l.config.MaxAge)\<close>; the negation is an \<^verbatim>\<open>int64\<close> negation.\<close>

definition cutoffTime :: "Env \<Rightarrow> Config \<Rightarrow> int" where
  "cutoffTime env c = now env + wrap64 (- MaxAge c)"

text \<open>The loop of \<^verbatim>\<open>cleanupOldLogs\<close> over the files that the glob returned.\<close>

fun sweep :: "Env \<Rightarrow> int \<Rightarrow> path list \<Rightarrow> World \<Rightarrow> World" where
  "sweep env cutoff [] w = w"
| "sweep env cutoff (f # files) w =
     (case os_Stat env f w of
        Inl e \<Rightarrow> sweep env cutoff files w
      | Inr info \<Rightarrow>
          if modTime info < cutoff then
            (case os_Remove env f w of
               (Some e, w1) \<Rightarrow>
                 sweep env cutoff files (eprint (''failed to remove old log file: '' @ e @ [newline]) w1)
             | (None, w1) \<Rightarrow> sweep env cutoff files w1)
          else sweep env cutoff files w)"

text \<open>\<^verbatim>\<open>func (l *Logger) cleanupOldLogs()\<close>.\<close>

definition cleanupOldLogs :: "Env \<Rightarrow> Logger \<Rightarrow> World \<Rightarrow> World" where
  "cleanupOldLogs env l w =
     (case Glob env (FilePath (config l) @ ''.*.gz'') (fs w) of
        Inl e \<Rightarrow> eprint (''failed to get log files: '' @ e @ [newline]) w
      | Inr files \<Rightarrow> sweep env (cutoffTime env (config l)) files w)"

subsection \<open>Predicates of the statements\<close>

text \<open>A text that is exactly one line: not empty, ended by a newline, with no newline
  before the end.\<close>

definition oneLine :: "string \<Rightarrow> bool" where
  "oneLine s \<longleftrightarrow> s \<noteq> [] \<and> last s = newline \<and> newline \<notin> set (butlast s)"

text \<open>The byte counter agrees with the open log file: the logger holds an open handle,
  the file is there, and \<open>currentSize\<close> is its size.\<close>

definition synced :: "Logger \<Rightarrow> World \<Rightarrow> bool" where
  "synced l w =
     (case logFile l of
        None \<Rightarrow> False
      | Some f \<Rightarrow>
          \<not> fclosed f \<and>
          (case fs w (fname f) of None \<Rightarrow> False | Some d \<Rightarrow> currentSize l = Size d))"

text \<open>The environment lets a write through whole, or refuses it before any byte is
  written.\<close>

definition wholeOrNothing :: "Env \<Rightarrow> bool" where
  "wholeOrNothing env = (case writeFault env of None \<Rightarrow> True | Some (k, e) \<Rightarrow> k = 0)"

text \<open>A run of calls of \<^verbatim>\<open>write\<close>, each with the environment of its moment.\<close>

fun writeAll :: "(Env \<times> LogLevel \<times> string) list \<Rightarrow> Logger \<times> World \<Rightarrow> Logger \<times> World" where
  "writeAll [] s = s"
| "writeAll ((env, level, message) # calls) s =
     writeAll calls (Logger_write env level message s)"

text \<open>The number of bytes a call of \<^verbatim>\<open>write\<close> hands to the file: the length of the
  formatted line, and none when formatting fails.\<close>

definition lineLength :: "Env \<Rightarrow> Config \<Rightarrow> LogLevel \<Rightarrow> string \<Rightarrow> nat" where
  "lineLength env c level message =
     (case formatLine env c level message of Inl e \<Rightarrow> 0 | Inr line \<Rightarrow> length line)"

text \<open>A file that the sweep may delete: \<^verbatim>\<open>os.Stat\<close> succeeds on it and its modification
  time is before the cutoff.\<close>

definition expired :: "Env \<Rightarrow> int \<Rightarrow> World \<Rightarrow> path \<Rightarrow> bool" where
  "expired env cutoff w p =
     (case os_Stat env p w of Inl e \<Rightarrow> False | Inr info \<Rightarrow> modTime info < cutoff)"

text \<open>What the sweep prints for a file: a message when the file is expired and its
  removal fails, nothing otherwise.\<close>

definition removeMessage :: "Env \<Rightarrow> int \<Rightarrow> World \<Rightarrow> path \<Rightarrow> string option" where
  "removeMessage env cutoff w p =
     (if expired env cutoff w p
      then map_option (\<lambda>e. ''failed to remove old log file: '' @ e @ [newline]) (removeFault env p)
      else None)"

subsection \<open>Concrete inputs\<close>

text \<open>The inputs of the concrete instances below. The clock of \<open>quietEnv\<close> reads
  2024-05-06T07:08:09Z and no system call fails; \<open>stdFormat\<close> is \<^verbatim>\<open>Time.Format\<close> at
  that instant for the two layouts used, \<open>flatMarshal\<close> is \<^verbatim>\<open>json.Marshal\<close> on entries
  whose strings need no escaping, and \<open>storeGzip\<close> stands for the gzip codec.\<close>

definition stdFormat :: "int \<Rightarrow> string \<Rightarrow> string" where
  "stdFormat t layout =
     (if layout = RFC3339 then ''2024-05-06T07:08:09Z''
      else if layout = ''2006-01-02'' then ''2024-05-06''
      else layout)"

definition flatMarshal :: "LogEntry \<Rightarrow> error + string" where
  \<open>flatMarshal e =
     Inr (''{"timestamp":"'' @ Timestamp e @ ''","level":"'' @ Level e @
          ''","message":"'' @ Message e @ ''"}'')\<close>

definition storeGzip :: "string \<Rightarrow> string" where
  "storeGzip s = ''GZ'' @ s"

definition quietEnv :: Env where
  "quietEnv =
     \<lparr>now = 1714979289000000000, Format = stdFormat, Marshal = flatMarshal,
      Gzip = storeGzip, Glob = (\<lambda>pattern files. Inr []),
      mkdirFault = None, openFault = None, fstatFault = None, writeFault = None,
      closeFault = None, renameFault = None, srcOpenFault = None, dstCreateFault = None,
      copyFault = None, flushFault = None,
      statFault = (\<lambda>p. None), removeFault = (\<lambda>p. None)\<rparr>"

definition marshalFailEnv :: Env where
  "marshalFailEnv = quietEnv\<lparr>Marshal := (\<lambda>e. Inl ''unsupported value'')\<rparr>"

definition fullDiskEnv :: Env where
  "fullDiskEnv = quietEnv\<lparr>writeFault := Some (5, ''no space left on device'')\<rparr>"

definition flushFailEnv :: Env where
  "flushFailEnv = quietEnv\<lparr>flushFault := Some (''GZ2024-05-06'', ''no space left on device'')\<rparr>"

text \<open>The decoder of \<open>storeGzip\<close>.\<close>

definition demoGunzip :: "string \<Rightarrow> string option" where
  "demoGunzip z = (if take 2 z = ''GZ'' then Some (drop 2 z) else None)"

definition demoConfig :: Config where
  "demoConfig =
     \<lparr>FilePath = ''app.log'', MaxSize = 100, MaxAge = 0, CompressOldLogs = True,
      JSONFormat = False, TimestampFormat = [], RotationCheckInterval = 0\<rparr>"

definition demoLogger :: Logger where
  "demoLogger =
     \<lparr>config = withDefaults demoConfig,
      logFile = Some \<lparr>fname = ''app.log'', fclosed = False\<rparr>,
      currentSize = 34\<rparr>"

definition jsonLogger :: Logger where
  "jsonLogger = demoLogger\<lparr>config := (config demoLogger)\<lparr>JSONFormat := True\<rparr>\<rparr>"

definition emptyWorld :: World where
  "emptyWorld = \<lparr>fs = Map.empty, stderr = [], goroutines = []\<rparr>"

definition demoWorld :: World where
  "demoWorld =
     \<lparr>fs = [''app.log'' \<mapsto>
             \<lparr>content = ''2024-05-06T07:00:00Z - [INFO]: up'' @ [newline],
              modTime = 1714978800000000000\<rparr>],
      stderr = [], goroutines = [RotationChecker]\<rparr>"

text \<open>For the retention sweep: five archives, four of them older than a week; the third
  cannot be examined and the second cannot be removed.\<close>

definition sweepEnv :: Env where
  "sweepEnv = quietEnv
     \<lparr>Glob := (\<lambda>pattern files.
        if pattern = ''app.log.*.gz''
        then Inr [''app.log.2023-11-01T00:00:00Z.gz'', ''app.log.2023-11-02T00:00:00Z.gz'',
                  ''app.log.2023-11-03T00:00:00Z.gz'', ''app.log.2023-11-04T00:00:00Z.gz'',
                  ''app.log.2024-05-05T00:00:00Z.gz'']
        else Inr []),
      statFault := (\<lambda>p. if p = ''app.log.2023-11-03T00:00:00Z.gz''
                         then Some ''permission denied'' else None),
      removeFault := (\<lambda>p. if p = ''app.log.2023-11-02T00:00:00Z.gz''
                           then Some ''operation not permitted'' else None)\<rparr>"

definition statFailEnv :: Env where
  "statFailEnv = sweepEnv\<lparr>removeFault := (\<lambda>p. None)\<rparr>"

definition sweepWorld :: World where
  "sweepWorld =
     \<lparr>fs = [''app.log'' \<mapsto> \<lparr>content = [], modTime = 1714979000000000000\<rparr>,
            ''app.log.2023-11-01T00:00:00Z.gz'' \<mapsto> \<lparr>content = ''GZa'', modTime = 1698796800000000000\<rparr>,
            ''app.log.2023-11-02T00:00:00Z.gz'' \<mapsto> \<lparr>content = ''GZb'', modTime = 1698883200000000000\<rparr>,
            ''app.log.2023-11-03T00:00:00Z.gz'' \<mapsto> \<lparr>content = ''GZc'', modTime = 1698969600000000000\<rparr>,
            ''app.log.2023-11-04T00:00:00Z.gz'' \<mapsto> \<lparr>content = ''GZd'', modTime = 1699056000000000000\<rparr>,
            ''app.log.2024-05-05T00:00:00Z.gz'' \<mapsto> \<lparr>content = ''GZe'', modTime = 1714867200000000000\<rparr>],
      stderr = [], goroutines = [RotationChecker, CleanupTask]\<rparr>"

lemmas fixture_defs = quietEnv_def demoConfig_def demoLogger_def demoWorld_def stdFormat_def
  flatMarshal_def storeGzip_def withDefaults_def RFC3339_def

lemmas write_defs = Logger_write_def formatLine_def mkEntry_def plainLine_def File_Write_def
  eprint_def LogLevel_String_def LevelDebug_def LevelInfo_def LevelWarning_def LevelError_def
  LevelFatal_def

section \<open>Properties\<close>

subsection \<open>Level names\<close>

text \<open>
  C10. \<open>LogLevel_String\<close> is defined on every integer and never fails: it gives the five
  names for the five constants and \<open>UNKNOWN\<close> for every other value.
\<close>

theorem LogLevel_String_total:
  "LogLevel_String LevelDebug = ''DEBUG'' \<and> LogLevel_String LevelInfo = ''INFO'' \<and>
   LogLevel_String LevelWarning = ''WARNING'' \<and> LogLevel_String LevelError = ''ERROR'' \<and>
   LogLevel_String LevelFatal = ''FATAL'' \<and>
   (\<forall>l. l \<notin> {LevelDebug, LevelInfo, LevelWarning, LevelError, LevelFatal} \<longrightarrow>
        LogLevel_String l = ''UNKNOWN'') \<and>
   (\<forall>l. LogLevel_String l \<in> {''DEBUG'', ''INFO'', ''WARNING'', ''ERROR'', ''FATAL'', ''UNKNOWN''})"
  by (simp add: LogLevel_String_def LevelDebug_def LevelInfo_def LevelWarning_def
      LevelError_def LevelFatal_def)

theorem LogLevel_String_total_witness:
  "(7::int) \<notin> {LevelDebug, LevelInfo, LevelWarning, LevelError, LevelFatal} \<and>
   LogLevel_String 7 = ''UNKNOWN'' \<and> LogLevel_String (- 1) = ''UNKNOWN''"
proof -
  have a: "(7::int) \<notin> {LevelDebug, LevelInfo, LevelWarning, LevelError, LevelFatal}"
    by (simp add: LevelDebug_def LevelInfo_def LevelWarning_def LevelError_def LevelFatal_def)
  have b: "(- 1::int) \<notin> {LevelDebug, LevelInfo, LevelWarning, LevelError, LevelFatal}"
    by (simp add: LevelDebug_def LevelInfo_def LevelWarning_def LevelError_def LevelFatal_def)
  from LogLevel_String_total a b show ?thesis by blast
qed

subsection \<open>Writing\<close>

lemma formatLine_nonempty: "formatLine env c level message = Inr line \<Longrightarrow> line \<noteq> []"
  by (auto simp: formatLine_def plainLine_def Let_def split: if_splits sum.splits)

lemma File_Write_frame:
  "File_Write env fo b w = (n, r, w1) \<Longrightarrow> stderr w1 = stderr w \<and> goroutines w1 = goroutines w"
  by (auto simp: File_Write_def Let_def split: option.splits if_splits)

lemma File_Write_error_short:
  "File_Write env fo b w = (n, Some e, w1) \<Longrightarrow> b \<noteq> [] \<Longrightarrow> n < length b"
proof -
  assume a: "File_Write env fo b w = (n, Some e, w1)" and "b \<noteq> []"
  then have pos: "0 < length b" by simp
  from a have "n = 0 \<or> n \<le> length b - 1"
    by (auto simp: File_Write_def Let_def split: option.splits if_splits)
  with pos show ?thesis by arith
qed

lemma File_Write_files:
  "File_Write env fo b w = (n, r, w1) \<Longrightarrow>
     fs w1 p = fs w p \<or>
     (\<exists>d. fs w p = Some d \<and> fs w1 p = Some \<lparr>content = content d @ take n b, modTime = now env\<rparr>)"
  by (auto simp: File_Write_def Let_def split: option.splits if_splits)

text \<open>
  C5. \<open>Logger_write\<close> has no error result and is defined on every level, message and
  state, so nothing reaches the caller. When formatting fails, the error is printed to
  standard error and the logger and the files are unchanged. When the append fails, the
  error is printed to standard error and the logger, with its byte counter, is unchanged;
  the file holds at most a proper prefix of the line.
\<close>

theorem write_failure_contained:
  "(formatLine env (config l) level message = Inl e \<longrightarrow>
      Logger_write env level message (l, w) =
        (l, w\<lparr>stderr := stderr w @ [''failed to marshal log entry: '' @ e @ [newline]]\<rparr>)) \<and>
   (formatLine env (config l) level message = Inr line \<and>
    File_Write env (logFile l) line w = (n, Some e, w1) \<longrightarrow>
      Logger_write env level message (l, w) =
        (l, w1\<lparr>stderr := stderr w @ [''failed to write to log file: '' @ e @ [newline]]\<rparr>) \<and>
      goroutines w1 = goroutines w \<and> n < length line \<and>
      (\<forall>p. fs w1 p = fs w p \<or>
           (\<exists>d. fs w p = Some d \<and>
                fs w1 p = Some \<lparr>content = content d @ take n line, modTime = now env\<rparr>)))"
proof (intro conjI impI)
  assume "formatLine env (config l) level message = Inl e"
  then show "Logger_write env level message (l, w) =
        (l, w\<lparr>stderr := stderr w @ [''failed to marshal log entry: '' @ e @ [newline]]\<rparr>)"
    by (simp add: Logger_write_def eprint_def)
next
  assume a: "formatLine env (config l) level message = Inr line \<and>
    File_Write env (logFile l) line w = (n, Some e, w1)"
  then have fw: "File_Write env (logFile l) line w = (n, Some e, w1)" by simp
  from a have ne: "line \<noteq> []" using formatLine_nonempty by blast
  from File_Write_frame [OF fw] have fr: "stderr w1 = stderr w" "goroutines w1 = goroutines w"
    by simp_all
  from a fr show "Logger_write env level message (l, w) =
        (l, w1\<lparr>stderr := stderr w @ [''failed to write to log file: '' @ e @ [newline]]\<rparr>)"
    by (simp add: Logger_write_def eprint_def)
  from fr show "goroutines w1 = goroutines w" by simp
  from File_Write_error_short [OF fw ne] show "n < length line" .
  from File_Write_files [OF fw] show "\<forall>p. fs w1 p = fs w p \<or>
           (\<exists>d. fs w p = Some d \<and>
                fs w1 p = Some \<lparr>content = content d @ take n line, modTime = now env\<rparr>)"
    by blast
qed


theorem write_failure_contained_witness:
  "formatLine marshalFailEnv (config jsonLogger) LevelInfo ''x'' = Inl ''unsupported value'' \<and>
   Logger_write marshalFailEnv LevelInfo ''x'' (jsonLogger, demoWorld) =
     (jsonLogger,
      demoWorld\<lparr>stderr := [''failed to marshal log entry: unsupported value'' @ [newline]]\<rparr>) \<and>
   formatLine fullDiskEnv (config demoLogger) LevelInfo ''x'' =
     Inr (''2024-05-06T07:08:09Z - [INFO]: x'' @ [newline]) \<and>
   File_Write fullDiskEnv (logFile demoLogger) (''2024-05-06T07:08:09Z - [INFO]: x'' @ [newline])
       demoWorld =
     (5, Some ''no space left on device'',
      demoWorld\<lparr>fs := [''app.log'' \<mapsto>
        \<lparr>content = ''2024-05-06T07:00:00Z - [INFO]: up'' @ [newline] @ ''2024-'',
         modTime = 1714979289000000000\<rparr>]\<rparr>) \<and>
   Logger_write fullDiskEnv LevelInfo ''x'' (demoLogger, demoWorld) =
     (demoLogger,
      demoWorld\<lparr>fs := [''app.log'' \<mapsto>
          \<lparr>content = ''2024-05-06T07:00:00Z - [INFO]: up'' @ [newline] @ ''2024-'',
           modTime = 1714979289000000000\<rparr>],
        stderr := [''failed to write to log file: no space left on device'' @ [newline]]\<rparr>)"
proof -
  have f1: "formatLine marshalFailEnv (config jsonLogger) LevelInfo ''x'' = Inl ''unsupported value''"
    by (simp add: marshalFailEnv_def jsonLogger_def fixture_defs write_defs)
  have f2: "formatLine fullDiskEnv (config demoLogger) LevelInfo ''x'' =
     Inr (''2024-05-06T07:08:09Z - [INFO]: x'' @ [newline])"
    by (simp add: fullDiskEnv_def fixture_defs write_defs)
  have f3: "File_Write fullDiskEnv (logFile demoLogger) (''2024-05-06T07:08:09Z - [INFO]: x'' @ [newline])
       demoWorld =
     (5, Some ''no space left on device'',
      demoWorld\<lparr>fs := [''app.log'' \<mapsto>
        \<lparr>content = ''2024-05-06T07:00:00Z - [INFO]: up'' @ [newline] @ ''2024-'',
         modTime = 1714979289000000000\<rparr>]\<rparr>)"
    by (simp add: fullDiskEnv_def fixture_defs write_defs)
  from write_failure_contained [where env = marshalFailEnv and l = jsonLogger and level = LevelInfo
      and message = "''x''" and e = "''unsupported value''" and w = demoWorld] f1
  have g1: "Logger_write marshalFailEnv LevelInfo ''x'' (jsonLogger, demoWorld) =
     (jsonLogger,
      demoWorld\<lparr>stderr := [''failed to marshal log entry: unsupported value'' @ [newline]]\<rparr>)"
    by (simp add: demoWorld_def)
  from write_failure_contained [where env = fullDiskEnv and l = demoLogger and level = LevelInfo
      and message = "''x''" and w = demoWorld, THEN conjunct2, THEN mp, OF conjI [OF f2 f3]]
  have g2: "Logger_write fullDiskEnv LevelInfo ''x'' (demoLogger, demoWorld) =
     (demoLogger,
      demoWorld\<lparr>fs := [''app.log'' \<mapsto>
          \<lparr>content = ''2024-05-06T07:00:00Z - [INFO]: up'' @ [newline] @ ''2024-'',
           modTime = 1714979289000000000\<rparr>],
        stderr := [''failed to write to log file: no space left on device'' @ [newline]]\<rparr>)"
    by (simp add: demoWorld_def)
  from f1 f2 f3 g1 g2 show ?thesis by blast
qed

lemma oneLine_snoc: "oneLine (xs @ [newline]) \<longleftrightarrow> newline \<notin> set xs"
  by (simp add: oneLine_def)

lemma LogLevel_String_no_newline: "newline \<notin> set (LogLevel_String level)"
  by (simp add: LogLevel_String_def newline_def)

lemma oneLine_plainLine:
  "oneLine (plainLine ts (LogLevel_String level) msg) \<longleftrightarrow> newline \<notin> set ts \<and> newline \<notin> set msg"
proof -
  have "plainLine ts (LogLevel_String level) msg =
      (ts @ '' - ['' @ LogLevel_String level @ '']: '' @ msg) @ [newline]"
    by (simp add: plainLine_def)
  then have "oneLine (plainLine ts (LogLevel_String level) msg) \<longleftrightarrow>
      newline \<notin> set (ts @ '' - ['' @ LogLevel_String level @ '']: '' @ msg)"
    by (simp only: oneLine_snoc)
  also have "\<dots> \<longleftrightarrow> newline \<notin> set ts \<and> newline \<notin> set msg"
    using LogLevel_String_no_newline [of level] by (auto simp: newline_def)
  finally show ?thesis .
qed

lemma write_success:
  assumes "logFile l = Some f" "\<not> fclosed f" "fs w (fname f) = Some d" "writeFault env = None"
    and "formatLine env (config l) level message = Inr line"
  shows "Logger_write env level message (l, w) =
     (l\<lparr>currentSize := wrap64 (currentSize l + int (length line))\<rparr>,
      w\<lparr>fs := (fs w)(fname f \<mapsto> \<lparr>content = content d @ line, modTime = now env\<rparr>)\<rparr>)"
proof -
  from assms(5) have "line \<noteq> []" by (rule formatLine_nonempty)
  with assms show ?thesis
    by (simp add: Logger_write_def File_Write_def Let_def)
qed

text \<open>
  C1 (as amended). When formatting succeeds and the append succeeds on the open log file,
  \<open>Logger_write\<close> appends exactly the formatted bytes and changes nothing else in the
  world. In the plain format these are \<open>timestamp - [LEVEL]: message\<close> and a newline, with
  the level name and the message verbatim; they form exactly one line if and only if
  neither the rendered timestamp nor the message contains a newline. In the structured
  format they are what \<^verbatim>\<open>json.Marshal\<close> returns for the entry with fields timestamp, level
  and message (holding the rendered time, the level name and the message as supplied) and a
  newline; they form exactly one line if and only if the encoding contains no newline.
\<close>

theorem write_appends_schema_line:
  "logFile l = Some f \<and> \<not> fclosed f \<and> fs w (fname f) = Some d \<and> writeFault env = None \<and>
   formatLine env (config l) level message = Inr line \<longrightarrow>
     snd (Logger_write env level message (l, w)) =
       w\<lparr>fs := (fs w)(fname f \<mapsto> \<lparr>content = content d @ line, modTime = now env\<rparr>)\<rparr> \<and>
     (\<not> JSONFormat (config l) \<longrightarrow>
        line = Format env (now env) RFC3339 @ '' - ['' @ LogLevel_String level @ '']: '' @
               message @ [newline] \<and>
        (oneLine line \<longleftrightarrow>
           newline \<notin> set (Format env (now env) RFC3339) \<and> newline \<notin> set message)) \<and>
     (JSONFormat (config l) \<longrightarrow>
        (\<exists>jsonData.
           Marshal env \<lparr>Timestamp = Format env (now env) RFC3339,
                        Level = LogLevel_String level, Message = message\<rparr> = Inr jsonData \<and>
           line = jsonData @ [newline] \<and>
           (oneLine line \<longleftrightarrow> newline \<notin> set jsonData)))"
proof (intro impI, elim conjE)
  assume a: "logFile l = Some f" "\<not> fclosed f" "fs w (fname f) = Some d" "writeFault env = None"
    and fl: "formatLine env (config l) level message = Inr line"
  have w: "snd (Logger_write env level message (l, w)) =
       w\<lparr>fs := (fs w)(fname f \<mapsto> \<lparr>content = content d @ line, modTime = now env\<rparr>)\<rparr>"
    by (simp add: write_success [OF a fl])
  have p: "line = Format env (now env) RFC3339 @ '' - ['' @ LogLevel_String level @ '']: '' @
               message @ [newline] \<and>
        (oneLine line \<longleftrightarrow>
           newline \<notin> set (Format env (now env) RFC3339) \<and> newline \<notin> set message)"
    if "\<not> JSONFormat (config l)"
  proof -
    from fl that have "line = plainLine (Format env (now env) RFC3339) (LogLevel_String level) message"
      by (simp add: formatLine_def mkEntry_def Let_def)
    then show ?thesis by (simp add: oneLine_plainLine) (simp add: plainLine_def)
  qed
  have j: "\<exists>jsonData.
           Marshal env \<lparr>Timestamp = Format env (now env) RFC3339,
                        Level = LogLevel_String level, Message = message\<rparr> = Inr jsonData \<and>
           line = jsonData @ [newline] \<and>
           (oneLine line \<longleftrightarrow> newline \<notin> set jsonData)"
    if "JSONFormat (config l)"
    using fl that
    by (auto simp: formatLine_def mkEntry_def Let_def oneLine_snoc split: sum.splits)
  from w p j show "snd (Logger_write env level message (l, w)) =
       w\<lparr>fs := (fs w)(fname f \<mapsto> \<lparr>content = content d @ line, modTime = now env\<rparr>)\<rparr> \<and>
     (\<not> JSONFormat (config l) \<longrightarrow>
        line = Format env (now env) RFC3339 @ '' - ['' @ LogLevel_String level @ '']: '' @
               message @ [newline] \<and>
        (oneLine line \<longleftrightarrow>
           newline \<notin> set (Format env (now env) RFC3339) \<and> newline \<notin> set message)) \<and>
     (JSONFormat (config l) \<longrightarrow>
        (\<exists>jsonData.
           Marshal env \<lparr>Timestamp = Format env (now env) RFC3339,
                        Level = LogLevel_String level, Message = message\<rparr> = Inr jsonData \<and>
           line = jsonData @ [newline] \<and>
           (oneLine line \<longleftrightarrow> newline \<notin> set jsonData)))"
    by blast
qed

theorem write_appends_schema_line_witness:
  \<open>logFile demoLogger = Some \<lparr>fname = ''app.log'', fclosed = False\<rparr> \<and>
   fs demoWorld ''app.log'' =
     Some \<lparr>content = ''2024-05-06T07:00:00Z - [INFO]: up'' @ [newline],
           modTime = 1714978800000000000\<rparr> \<and>
   writeFault quietEnv = None \<and>
   formatLine quietEnv (config demoLogger) LevelWarning ''disk almost full'' =
     Inr (''2024-05-06T07:08:09Z - [WARNING]: disk almost full'' @ [newline]) \<and>
   snd (Logger_write quietEnv LevelWarning ''disk almost full'' (demoLogger, demoWorld)) =
     demoWorld\<lparr>fs := [''app.log'' \<mapsto>
       \<lparr>content = ''2024-05-06T07:00:00Z - [INFO]: up'' @ [newline] @
                  ''2024-05-06T07:08:09Z - [WARNING]: disk almost full'' @ [newline],
        modTime = 1714979289000000000\<rparr>]\<rparr> \<and>
   oneLine (''2024-05-06T07:08:09Z - [WARNING]: disk almost full'' @ [newline]) \<and>
   formatLine quietEnv (config jsonLogger) LevelInfo ''hello'' =
     Inr (''{"timestamp":"2024-05-06T07:08:09Z","level":"INFO","message":"hello"}'' @ [newline]) \<and>
   snd (Logger_write quietEnv LevelInfo ''hello'' (jsonLogger, demoWorld)) =
     demoWorld\<lparr>fs := [''app.log'' \<mapsto>
       \<lparr>content = ''2024-05-06T07:00:00Z - [INFO]: up'' @ [newline] @
                  ''{"timestamp":"2024-05-06T07:08:09Z","level":"INFO","message":"hello"}'' @
                  [newline],
        modTime = 1714979289000000000\<rparr>]\<rparr> \<and>
   oneLine (''{"timestamp":"2024-05-06T07:08:09Z","level":"INFO","message":"hello"}'' @ [newline])\<close>
proof -
  let ?f = "\<lparr>fname = ''app.log'', fclosed = False\<rparr>"
  let ?d = "\<lparr>content = ''2024-05-06T07:00:00Z - [INFO]: up'' @ [newline],
           modTime = 1714978800000000000\<rparr>"
  let ?p = "''2024-05-06T07:08:09Z - [WARNING]: disk almost full'' @ [newline]"
  let ?j = \<open>''{"timestamp":"2024-05-06T07:08:09Z","level":"INFO","message":"hello"}'' @ [newline]\<close>
  have h1: "logFile demoLogger = Some ?f" and h1': "logFile jsonLogger = Some ?f"
    by (simp_all add: jsonLogger_def demoLogger_def)
  have h2: "\<not> fclosed ?f" by simp
  have h3: "fs demoWorld (fname ?f) = Some ?d" by (simp add: demoWorld_def)
  have h4: "writeFault quietEnv = None" by (simp add: quietEnv_def)
  have h5: "formatLine quietEnv (config demoLogger) LevelWarning ''disk almost full'' = Inr ?p"
    by (simp add: fixture_defs write_defs)
  have h6: "formatLine quietEnv (config jsonLogger) LevelInfo ''hello'' = Inr ?j"
    by (simp add: jsonLogger_def fixture_defs write_defs)
  have plain: "\<not> JSONFormat (config demoLogger)" and json: "JSONFormat (config jsonLogger)"
    by (simp_all add: jsonLogger_def fixture_defs)
  have nl: "newline \<notin> set (Format quietEnv (now quietEnv) RFC3339)"
      "newline \<notin> set ''disk almost full''"
    by (simp_all add: fixture_defs newline_def)
  note p = write_appends_schema_line [where l = demoLogger and f = ?f and w = demoWorld and d = ?d
      and env = quietEnv and level = LevelWarning and message = "''disk almost full''" and line = ?p,
      THEN mp, OF conjI [OF h1 conjI [OF h2 conjI [OF h3 conjI [OF h4 h5]]]]]
  note j = write_appends_schema_line [where l = jsonLogger and f = ?f and w = demoWorld and d = ?d
      and env = quietEnv and level = LevelInfo and message = "''hello''" and line = ?j,
      THEN mp, OF conjI [OF h1' conjI [OF h2 conjI [OF h3 conjI [OF h4 h6]]]]]
  from p have p1: "snd (Logger_write quietEnv LevelWarning ''disk almost full'' (demoLogger, demoWorld)) =
     demoWorld\<lparr>fs := [''app.log'' \<mapsto>
       \<lparr>content = ''2024-05-06T07:00:00Z - [INFO]: up'' @ [newline] @ ?p,
        modTime = 1714979289000000000\<rparr>]\<rparr>"
    by (simp add: demoWorld_def quietEnv_def)
  from p plain nl have p2: "oneLine ?p" by blast
  from j have j1: "snd (Logger_write quietEnv LevelInfo ''hello'' (jsonLogger, demoWorld)) =
     demoWorld\<lparr>fs := [''app.log'' \<mapsto>
       \<lparr>content = ''2024-05-06T07:00:00Z - [INFO]: up'' @ [newline] @ ?j,
        modTime = 1714979289000000000\<rparr>]\<rparr>"
    by (simp add: demoWorld_def quietEnv_def)
  from j json obtain js where a: "?j = js @ [newline]"
    and b: "oneLine ?j \<longleftrightarrow> newline \<notin> set js"
    by blast
  from a have \<open>js = ''{"timestamp":"2024-05-06T07:08:09Z","level":"INFO","message":"hello"}''\<close>
    by simp
  with b have j2: "oneLine ?j" by (simp add: newline_def)
  from h1 h3 h4 h5 p1 p2 h6 j1 j2 show ?thesis by simp
qed


text \<open>
  C1 as stated fails. In the plain format a message that contains a newline is appended
  verbatim, which gives two lines, not one; and a write whose append fails appends
  nothing.
\<close>

theorem write_one_line_counterexample:
  "snd (Logger_write quietEnv LevelInfo (''a'' @ [newline] @ ''b'') (demoLogger, demoWorld)) =
     demoWorld\<lparr>fs := [''app.log'' \<mapsto>
       \<lparr>content = ''2024-05-06T07:00:00Z - [INFO]: up'' @ [newline] @
                  ''2024-05-06T07:08:09Z - [INFO]: a'' @ [newline] @ ''b'' @ [newline],
        modTime = 1714979289000000000\<rparr>]\<rparr> \<and>
   \<not> oneLine (''2024-05-06T07:08:09Z - [INFO]: a'' @ [newline] @ ''b'' @ [newline]) \<and>
   snd (Logger_write (quietEnv\<lparr>writeFault := Some (0, ''no space left on device'')\<rparr>)
          LevelInfo ''x'' (demoLogger, demoWorld)) =
     demoWorld\<lparr>stderr := [''failed to write to log file: no space left on device'' @ [newline]]\<rparr>"
  by (simp add: fixture_defs write_defs wrap64_def oneLine_def newline_def)

text \<open>
  C2. The configured \<open>TimestampFormat\<close> is never read by \<open>Logger_write\<close>: the outcome of a
  write is the same for every value of the field. With the layout \<open>2006-01-02\<close>
  configured, for which the clock renders \<open>2024-05-06\<close>, the line written still carries
  the RFC 3339 rendering.
\<close>

theorem write_ignores_TimestampFormat:
  "Logger_write env level message (l\<lparr>config := (config l)\<lparr>TimestampFormat := tf\<rparr>\<rparr>, w) =
     (case Logger_write env level message (l, w) of
        (l', w') \<Rightarrow> (l'\<lparr>config := (config l')\<lparr>TimestampFormat := tf\<rparr>\<rparr>, w')) \<and>
   Format quietEnv (now quietEnv) ''2006-01-02'' = ''2024-05-06'' \<and>
   snd (Logger_write quietEnv LevelInfo ''x''
          (demoLogger\<lparr>config := (config demoLogger)\<lparr>TimestampFormat := ''2006-01-02''\<rparr>\<rparr>,
           demoWorld)) =
     demoWorld\<lparr>fs := [''app.log'' \<mapsto>
       \<lparr>content = ''2024-05-06T07:00:00Z - [INFO]: up'' @ [newline] @
                  ''2024-05-06T07:08:09Z - [INFO]: x'' @ [newline],
        modTime = 1714979289000000000\<rparr>]\<rparr>"
proof -
  have g: "Logger_write env level message (l\<lparr>config := (config l)\<lparr>TimestampFormat := tf\<rparr>\<rparr>, w) =
     (case Logger_write env level message (l, w) of
        (l', w') \<Rightarrow> (l'\<lparr>config := (config l')\<lparr>TimestampFormat := tf\<rparr>\<rparr>, w'))"
    by (simp add: Logger_write_def formatLine_def Let_def split: sum.splits option.splits prod.splits)
  have c: "Format quietEnv (now quietEnv) ''2006-01-02'' = ''2024-05-06''"
    by (simp add: fixture_defs)
  have d: "snd (Logger_write quietEnv LevelInfo ''x''
          (demoLogger\<lparr>config := (config demoLogger)\<lparr>TimestampFormat := ''2006-01-02''\<rparr>\<rparr>,
           demoWorld)) =
     demoWorld\<lparr>fs := [''app.log'' \<mapsto>
       \<lparr>content = ''2024-05-06T07:00:00Z - [INFO]: up'' @ [newline] @
                  ''2024-05-06T07:08:09Z - [INFO]: x'' @ [newline],
        modTime = 1714979289000000000\<rparr>]\<rparr>"
    by (simp add: fixture_defs write_defs wrap64_def)
  from g c d show ?thesis by blast
qed


subsection \<open>The byte counter\<close>

lemma wrap64_id: "- (2 ^ 63) \<le> x \<Longrightarrow> x < 2 ^ 63 \<Longrightarrow> wrap64 x = x"
  by (simp add: wrap64_def)

lemma openFile_synced: "openFile env (l, w) = (None, l', w') \<Longrightarrow> synced l' w'"
  by (auto simp: openFile_def os_OpenFile_def File_Stat_def synced_def
      split: option.splits sum.splits if_splits prod.splits)

lemma New_synced: "New env c w = (Inr l, w') \<Longrightarrow> synced l w'"
  by (auto simp: New_def Let_def synced_def dest!: openFile_synced split: prod.splits option.splits)

lemma rotate_synced: "Logger_rotate env (l, w) = (None, l', w') \<Longrightarrow> synced l' w'"
  by (auto simp: Logger_rotate_def Let_def synced_def dest!: openFile_synced
      split: prod.splits option.splits if_splits)


lemmas open_defs = New_def openFile_def os_OpenFile_def File_Stat_def Size_def
lemmas rotate_defs = Logger_rotate_def File_Close_def os_Rename_def Let_def

lemma write_keeps_synced:
  assumes s: "synced l w" and fl: "formatLine env (config l) level message = Inr line"
    and bound: "currentSize l + int (length line) < 2 ^ 63"
    and won: "wholeOrNothing env"
  shows "synced (fst (Logger_write env level message (l, w)))
           (snd (Logger_write env level message (l, w))) \<and>
         (writeFault env = None \<longrightarrow>
            currentSize (fst (Logger_write env level message (l, w))) =
              currentSize l + int (length line))"
proof -
  from s obtain f d where f: "logFile l = Some f" "\<not> fclosed f" "fs w (fname f) = Some d"
    and sz: "currentSize l = Size d"
    by (auto simp: synced_def split: option.splits)
  from sz have nonneg: "0 \<le> currentSize l" by (simp add: Size_def)
  show ?thesis
  proof (cases "writeFault env")
    case None
    from nonneg bound have "wrap64 (currentSize l + int (length line)) = currentSize l + int (length line)"
      by (intro wrap64_id) simp_all
    with None f sz show ?thesis
      by (simp add: write_success [OF f None fl] synced_def Size_def)
  next
    case (Some a)
    with won obtain e where "writeFault env = Some (0, e)"
      by (cases a) (simp add: wholeOrNothing_def)
    with f fl s show ?thesis
      by (simp add: Logger_write_def File_Write_def Let_def eprint_def synced_def)
  qed
qed

lemma format_failure_keeps_synced:
  "synced l w \<Longrightarrow> formatLine env (config l) level message = Inl e \<Longrightarrow>
   synced (fst (Logger_write env level message (l, w))) (snd (Logger_write env level message (l, w)))"
  by (auto simp: Logger_write_def eprint_def synced_def split: option.splits)

lemma write_config: "config (fst (Logger_write env level message (l, w))) = config l"
  by (simp add: Logger_write_def split: sum.splits prod.splits option.splits)

lemma write_step:
  assumes s: "synced l w" and won: "wholeOrNothing env"
    and bound: "currentSize l + int (lineLength env (config l) level message) < 2 ^ 63"
  shows "synced (fst (Logger_write env level message (l, w)))
           (snd (Logger_write env level message (l, w)))"
    and "currentSize (fst (Logger_write env level message (l, w))) \<le>
           currentSize l + int (lineLength env (config l) level message)"
proof -
  show "synced (fst (Logger_write env level message (l, w)))
           (snd (Logger_write env level message (l, w)))"
  proof (cases "formatLine env (config l) level message")
    case (Inl e)
    with s show ?thesis by (rule format_failure_keeps_synced)
  next
    case (Inr line)
    with bound have "currentSize l + int (length line) < 2 ^ 63" by (simp add: lineLength_def)
    from write_keeps_synced [OF s Inr this won] show ?thesis by blast
  qed
  show "currentSize (fst (Logger_write env level message (l, w))) \<le>
           currentSize l + int (lineLength env (config l) level message)"
  proof (cases "formatLine env (config l) level message")
    case (Inl e)
    then show ?thesis by (simp add: Logger_write_def)
  next
    case (Inr line)
    with bound have b: "currentSize l + int (length line) < 2 ^ 63" by (simp add: lineLength_def)
    show ?thesis
    proof (cases "writeFault env")
      case None
      with write_keeps_synced [OF s Inr b won] Inr show ?thesis by (simp add: lineLength_def)
    next
      case (Some a)
      with Inr show ?thesis
        by (simp add: Logger_write_def File_Write_def Let_def split: option.splits prod.splits)
    qed
  qed
qed

lemma writeAll_keeps_synced:
  "synced l w \<Longrightarrow> (\<forall>call \<in> set calls. wholeOrNothing (fst call)) \<Longrightarrow>
   currentSize l +
     int (sum_list (map (\<lambda>(env, level, message). lineLength env (config l) level message) calls))
     < 2 ^ 63 \<Longrightarrow>
   synced (fst (writeAll calls (l, w))) (snd (writeAll calls (l, w)))"
proof (induction calls arbitrary: l w)
  case Nil
  then show ?case by simp
next
  case (Cons call calls)
  obtain env level message where call: "call = (env, level, message)" by (cases call) auto
  obtain l' w' where step: "Logger_write env level message (l, w) = (l', w')"
    by (cases "Logger_write env level message (l, w)") auto
  from Cons.prems(2) call have won: "wholeOrNothing env" by simp
  from Cons.prems(3) call
  have b1: "currentSize l + int (lineLength env (config l) level message) < 2 ^ 63" by simp
  from write_step [OF Cons.prems(1) won b1] step
  have s': "synced l' w'"
    and le: "currentSize l' \<le> currentSize l + int (lineLength env (config l) level message)"
    by simp_all
  from write_config [of env level message l w] step have cfg: "config l' = config l" by simp
  from Cons.prems(2) have rest: "\<forall>call \<in> set calls. wholeOrNothing (fst call)" by simp
  from Cons.prems(3) call le cfg
  have b': "currentSize l' +
      int (sum_list (map (\<lambda>(env, level, message). lineLength env (config l') level message) calls))
      < 2 ^ 63"
    by simp
  from Cons.IH [OF s' rest b'] call step show ?case by simp
qed

text \<open>
  C3 (as amended). The byte counter equals the size of the open log file after a
  successful construction and after a successful rotation (both read it from the file
  just opened). From a state where it does, it still does after a write whose formatting
  fails, after a write whose append goes through whole or is refused before any byte is
  written, and so after every write of a run of such writes (sizes being below \<open>2^63\<close>,
  as an \<^verbatim>\<open>int64\<close> file size is). A successful write adds exactly the length of the
  appended line to the counter.
\<close>

theorem counter_tracks_open_file:
  "(\<forall>l w'. New env c w = (Inr l, w') \<longrightarrow> synced l w') \<and>
   (\<forall>l' w'. Logger_rotate env (l, w) = (None, l', w') \<longrightarrow> synced l' w') \<and>
   (synced l w \<and> formatLine env (config l) level message = Inl e \<longrightarrow>
      synced (fst (Logger_write env level message (l, w)))
             (snd (Logger_write env level message (l, w)))) \<and>
   (synced l w \<and> formatLine env (config l) level message = Inr line \<and>
    currentSize l + int (length line) < 2 ^ 63 \<and> wholeOrNothing env \<longrightarrow>
      synced (fst (Logger_write env level message (l, w)))
             (snd (Logger_write env level message (l, w))) \<and>
      (writeFault env = None \<longrightarrow>
         currentSize (fst (Logger_write env level message (l, w))) =
           currentSize l + int (length line))) \<and>
   (synced l w \<and> (\<forall>call \<in> set calls. wholeOrNothing (fst call)) \<and>
    currentSize l +
      int (sum_list (map (\<lambda>(env, level, message). lineLength env (config l) level message) calls))
      < 2 ^ 63 \<longrightarrow>
      synced (fst (writeAll calls (l, w))) (snd (writeAll calls (l, w))))"
proof (intro conjI allI impI)
  fix l0 w' assume "New env c w = (Inr l0, w')"
  then show "synced l0 w'" by (rule New_synced)
next
  fix l' w' assume "Logger_rotate env (l, w) = (None, l', w')"
  then show "synced l' w'" by (rule rotate_synced)
next
  assume "synced l w \<and> formatLine env (config l) level message = Inl e"
  then show "synced (fst (Logger_write env level message (l, w)))
             (snd (Logger_write env level message (l, w)))"
    using format_failure_keeps_synced by blast
next
  assume a: "synced l w \<and> formatLine env (config l) level message = Inr line \<and>
    currentSize l + int (length line) < 2 ^ 63 \<and> wholeOrNothing env"
  then show "synced (fst (Logger_write env level message (l, w)))
             (snd (Logger_write env level message (l, w)))"
    using write_keeps_synced by blast
  assume "writeFault env = None"
  with a show "currentSize (fst (Logger_write env level message (l, w))) =
           currentSize l + int (length line)"
    using write_keeps_synced by blast
next
  assume "synced l w \<and> (\<forall>call \<in> set calls. wholeOrNothing (fst call)) \<and>
    currentSize l +
      int (sum_list (map (\<lambda>(env, level, message). lineLength env (config l) level message) calls))
      < 2 ^ 63"
  then show "synced (fst (writeAll calls (l, w))) (snd (writeAll calls (l, w)))"
    using writeAll_keeps_synced by blast
qed

text \<open>
  C3 as stated fails after a write whose append fails part of the way: five bytes have
  reached the file, which now holds 39, and the counter still reads 34.
\<close>

theorem counter_tracks_open_file_counterexample:
  "synced demoLogger demoWorld \<and>
   \<not> synced (fst (Logger_write fullDiskEnv LevelInfo ''x'' (demoLogger, demoWorld)))
            (snd (Logger_write fullDiskEnv LevelInfo ''x'' (demoLogger, demoWorld))) \<and>
   currentSize (fst (Logger_write fullDiskEnv LevelInfo ''x'' (demoLogger, demoWorld))) = 34 \<and>
   map_option Size
     (fs (snd (Logger_write fullDiskEnv LevelInfo ''x'' (demoLogger, demoWorld))) ''app.log'') =
     Some 39"
  by (simp add: fullDiskEnv_def fixture_defs write_defs synced_def Size_def)

theorem counter_tracks_open_file_witness:
  "New quietEnv demoConfig emptyWorld =
     (Inr \<lparr>config = withDefaults demoConfig,
           logFile = Some \<lparr>fname = ''app.log'', fclosed = False\<rparr>, currentSize = 0\<rparr>,
      \<lparr>fs = [''app.log'' \<mapsto> \<lparr>content = [], modTime = 1714979289000000000\<rparr>],
       stderr = [], goroutines = [RotationChecker]\<rparr>) \<and>
   synced \<lparr>config = withDefaults demoConfig,
           logFile = Some \<lparr>fname = ''app.log'', fclosed = False\<rparr>, currentSize = 0\<rparr>
     \<lparr>fs = [''app.log'' \<mapsto> \<lparr>content = [], modTime = 1714979289000000000\<rparr>],
      stderr = [], goroutines = [RotationChecker]\<rparr> \<and>
   Logger_rotate quietEnv (demoLogger, demoWorld) =
     (None, demoLogger\<lparr>currentSize := 0\<rparr>,
      \<lparr>fs = [''app.log.2024-05-06T07:08:09Z'' \<mapsto>
               \<lparr>content = ''2024-05-06T07:00:00Z - [INFO]: up'' @ [newline],
                modTime = 1714978800000000000\<rparr>,
             ''app.log'' \<mapsto> \<lparr>content = [], modTime = 1714979289000000000\<rparr>],
       stderr = [],
       goroutines = [RotationChecker, CompressTask ''app.log.2024-05-06T07:08:09Z'', CleanupTask]\<rparr>) \<and>
   synced (demoLogger\<lparr>currentSize := 0\<rparr>)
     \<lparr>fs = [''app.log.2024-05-06T07:08:09Z'' \<mapsto>
               \<lparr>content = ''2024-05-06T07:00:00Z - [INFO]: up'' @ [newline],
                modTime = 1714978800000000000\<rparr>,
             ''app.log'' \<mapsto> \<lparr>content = [], modTime = 1714979289000000000\<rparr>],
       stderr = [],
       goroutines = [RotationChecker, CompressTask ''app.log.2024-05-06T07:08:09Z'', CleanupTask]\<rparr> \<and>
   synced demoLogger demoWorld \<and>
   formatLine marshalFailEnv (config jsonLogger) LevelInfo ''x'' = Inl ''unsupported value'' \<and>
   synced (fst (Logger_write marshalFailEnv LevelInfo ''x'' (jsonLogger, demoWorld)))
          (snd (Logger_write marshalFailEnv LevelInfo ''x'' (jsonLogger, demoWorld))) \<and>
   formatLine quietEnv (config demoLogger) LevelInfo ''x'' =
     Inr (''2024-05-06T07:08:09Z - [INFO]: x'' @ [newline]) \<and>
   wholeOrNothing quietEnv \<and>
   synced (fst (Logger_write quietEnv LevelInfo ''x'' (demoLogger, demoWorld)))
          (snd (Logger_write quietEnv LevelInfo ''x'' (demoLogger, demoWorld))) \<and>
   currentSize (fst (Logger_write quietEnv LevelInfo ''x'' (demoLogger, demoWorld))) = 34 + 33 \<and>
   wholeOrNothing (quietEnv\<lparr>writeFault := Some (0, ''no space left on device'')\<rparr>) \<and>
   synced
     (fst (writeAll
        [(quietEnv, LevelInfo, ''x''),
         (quietEnv\<lparr>writeFault := Some (0, ''no space left on device'')\<rparr>, LevelFatal, ''y''),
         (quietEnv, LevelError, ''z'')]
        (demoLogger, demoWorld)))
     (snd (writeAll
        [(quietEnv, LevelInfo, ''x''),
         (quietEnv\<lparr>writeFault := Some (0, ''no space left on device'')\<rparr>, LevelFatal, ''y''),
         (quietEnv, LevelError, ''z'')]
        (demoLogger, demoWorld)))"
proof -
  let ?refuse = "quietEnv\<lparr>writeFault := Some (0, ''no space left on device'')\<rparr>"
  let ?calls = "[(quietEnv, LevelInfo, ''x''), (?refuse, LevelFatal, ''y''),
      (quietEnv, LevelError, ''z'')]"
  let ?l0 = "\<lparr>config = withDefaults demoConfig,
           logFile = Some \<lparr>fname = ''app.log'', fclosed = False\<rparr>, currentSize = 0\<rparr>"
  let ?w0 = "\<lparr>fs = [''app.log'' \<mapsto> \<lparr>content = [], modTime = 1714979289000000000\<rparr>],
       stderr = [], goroutines = [RotationChecker]\<rparr>"
  let ?w1 = "\<lparr>fs = [''app.log.2024-05-06T07:08:09Z'' \<mapsto>
               \<lparr>content = ''2024-05-06T07:00:00Z - [INFO]: up'' @ [newline],
                modTime = 1714978800000000000\<rparr>,
             ''app.log'' \<mapsto> \<lparr>content = [], modTime = 1714979289000000000\<rparr>],
       stderr = [],
       goroutines = [RotationChecker, CompressTask ''app.log.2024-05-06T07:08:09Z'', CleanupTask]\<rparr>"
  let ?line = "''2024-05-06T07:08:09Z - [INFO]: x'' @ [newline]"
  have n: "New quietEnv demoConfig emptyWorld = (Inr ?l0, ?w0)"
    by (simp add: open_defs emptyWorld_def fixture_defs)
  have r: "Logger_rotate quietEnv (demoLogger, demoWorld) = (None, demoLogger\<lparr>currentSize := 0\<rparr>, ?w1)"
    by (simp add: rotate_defs open_defs fixture_defs fun_upd_twist)
  have s0: "synced demoLogger demoWorld"
    by (simp add: synced_def Size_def fixture_defs)
  have s0': "synced jsonLogger demoWorld"
    by (simp add: synced_def Size_def jsonLogger_def fixture_defs)
  have f1: "formatLine marshalFailEnv (config jsonLogger) LevelInfo ''x'' = Inl ''unsupported value''"
    by (simp add: marshalFailEnv_def jsonLogger_def fixture_defs write_defs)
  have f2: "formatLine quietEnv (config demoLogger) LevelInfo ''x'' = Inr ?line"
    by (simp add: fixture_defs write_defs)
  have b: "currentSize demoLogger + int (length ?line) < 2 ^ 63"
    by (simp add: demoLogger_def)
  have won: "wholeOrNothing quietEnv" and nf: "writeFault quietEnv = None"
    by (simp_all add: wholeOrNothing_def quietEnv_def)
  note a = counter_tracks_open_file [where env = quietEnv and c = demoConfig and w = emptyWorld,
      THEN conjunct1, rule_format, OF n]
  note c = counter_tracks_open_file [where env = quietEnv and l = demoLogger and w = demoWorld,
      THEN conjunct2, THEN conjunct1, rule_format, OF r]
  note d = counter_tracks_open_file [where env = marshalFailEnv and l = jsonLogger
      and w = demoWorld and level = LevelInfo and message = "''x''",
      THEN conjunct2, THEN conjunct2, THEN conjunct1, rule_format, OF conjI [OF s0' f1]]
  note e = counter_tracks_open_file [where env = quietEnv and l = demoLogger
      and w = demoWorld and level = LevelInfo and message = "''x''",
      THEN conjunct2, THEN conjunct2, THEN conjunct2, THEN conjunct1, rule_format,
      OF conjI [OF s0 conjI [OF f2 conjI [OF b won]]]]
  from e nf have e2: "currentSize (fst (Logger_write quietEnv LevelInfo ''x'' (demoLogger, demoWorld))) = 34 + 33"
    by (simp add: demoLogger_def)
  have won': "wholeOrNothing ?refuse"
    by (simp add: wholeOrNothing_def)
  from won won' have all: "\<forall>call \<in> set ?calls. wholeOrNothing (fst call)"
    by simp
  have total: "currentSize demoLogger +
      int (sum_list (map (\<lambda>(env, level, message). lineLength env (config demoLogger) level message)
        ?calls)) < 2 ^ 63"
    by (simp add: lineLength_def fixture_defs write_defs)
  note g = counter_tracks_open_file [where l = demoLogger and w = demoWorld and calls = ?calls,
      THEN conjunct2, THEN conjunct2, THEN conjunct2, THEN conjunct2, THEN mp,
      OF conjI [OF s0 conjI [OF all total]]]
  from n a r c s0 f1 d f2 won e e2 won' g show ?thesis by blast
qed


subsection \<open>Construction\<close>

text \<open>
  C8. A failure during construction is returned, with no logger. But a failure of
  \<^verbatim>\<open>os.OpenFile\<close> is wrapped with the context of the directory creation: the caller gets
  the same text for the two steps, while a failure of \<^verbatim>\<open>Stat\<close> has a context of its own.
\<close>

theorem New_open_failure_context:
  "New (quietEnv\<lparr>mkdirFault := Some ''permission denied''\<rparr>) demoConfig emptyWorld =
     (Inl ''failed to create log directory: permission denied'', emptyWorld) \<and>
   New (quietEnv\<lparr>openFault := Some ''permission denied''\<rparr>) demoConfig emptyWorld =
     (Inl ''failed to create log directory: permission denied'', emptyWorld) \<and>
   New (quietEnv\<lparr>fstatFault := Some ''input/output error''\<rparr>) demoConfig emptyWorld =
     (Inl ''failed to get file info: input/output error'',
      emptyWorld\<lparr>fs := [''app.log'' \<mapsto> \<lparr>content = [], modTime = 1714979289000000000\<rparr>]\<rparr>)"
  by (simp add: open_defs emptyWorld_def fixture_defs)

text \<open>
  X1. Every failure during construction is returned to the caller, with its context, and
  then no logger is returned and no goroutine is started; when no step fails, the logger
  is returned with the normalised configuration and the rotation checker is started.
\<close>

theorem New_failures_returned:
  "(mkdirFault env = Some e \<longrightarrow>
      New env c w = (Inl (''failed to create log directory: '' @ e), w)) \<and>
   (mkdirFault env = None \<and> openFault env = Some e \<longrightarrow>
      New env c w = (Inl (''failed to create log directory: '' @ e), w)) \<and>
   (mkdirFault env = None \<and> openFault env = None \<and> fstatFault env = Some e \<longrightarrow>
      (\<exists>w'. New env c w = (Inl (''failed to get file info: '' @ e), w') \<and>
            goroutines w' = goroutines w \<and> stderr w' = stderr w)) \<and>
   (mkdirFault env = None \<and> openFault env = None \<and> fstatFault env = None \<longrightarrow>
      (\<exists>l w'. New env c w = (Inr l, w') \<and> config l = withDefaults c \<and>
              goroutines w' = goroutines w @ [RotationChecker]))"
  by (auto simp: open_defs Let_def split: option.splits)

theorem New_failures_returned_witness:
  "New (quietEnv\<lparr>mkdirFault := Some ''read-only file system''\<rparr>) demoConfig emptyWorld =
     (Inl ''failed to create log directory: read-only file system'', emptyWorld) \<and>
   New (quietEnv\<lparr>openFault := Some ''is a directory''\<rparr>) demoConfig emptyWorld =
     (Inl ''failed to create log directory: is a directory'', emptyWorld) \<and>
   (\<exists>w'. New (quietEnv\<lparr>fstatFault := Some ''input/output error''\<rparr>) demoConfig emptyWorld =
           (Inl ''failed to get file info: input/output error'', w') \<and>
         goroutines w' = [] \<and> stderr w' = []) \<and>
   (\<exists>l w'. New quietEnv demoConfig emptyWorld = (Inr l, w') \<and>
           config l = withDefaults demoConfig \<and> goroutines w' = [RotationChecker])"
proof -
  let ?e1 = "quietEnv\<lparr>mkdirFault := Some ''read-only file system''\<rparr>"
  let ?e2 = "quietEnv\<lparr>openFault := Some ''is a directory''\<rparr>"
  let ?e3 = "quietEnv\<lparr>fstatFault := Some ''input/output error''\<rparr>"
  have a: "New ?e1 demoConfig emptyWorld =
     (Inl ''failed to create log directory: read-only file system'', emptyWorld)"
    using New_failures_returned [of ?e1 "''read-only file system''" demoConfig emptyWorld]
    by (simp add: quietEnv_def)
  have b: "New ?e2 demoConfig emptyWorld =
     (Inl ''failed to create log directory: is a directory'', emptyWorld)"
    using New_failures_returned [of ?e2 "''is a directory''" demoConfig emptyWorld]
    by (simp add: quietEnv_def)
  have c: "\<exists>w'. New ?e3 demoConfig emptyWorld =
           (Inl ''failed to get file info: input/output error'', w') \<and>
         goroutines w' = [] \<and> stderr w' = []"
    using New_failures_returned [of ?e3 "''input/output error''" demoConfig emptyWorld]
    by (simp add: quietEnv_def emptyWorld_def)
  have d: "\<exists>l w'. New quietEnv demoConfig emptyWorld = (Inr l, w') \<and>
           config l = withDefaults demoConfig \<and> goroutines w' = [RotationChecker]"
    using New_failures_returned [of quietEnv _ demoConfig emptyWorld]
    by (simp add: quietEnv_def emptyWorld_def)
  from a b c d show ?thesis by blast
qed

subsection \<open>Rotation and compression\<close>

lemmas compress_defs = compressTask_def compressFile_def os_Open_def os_Create_def putFile_def
  srcBytes_def os_Remove_def eprint_def

lemma rotate_archives:
  assumes r: "Logger_rotate env (l, w) = (None, l', w1)"
  shows "fs w1 (FilePath (config l) @ ''.'' @ Format env (now env) RFC3339) = fs w (FilePath (config l))"
    and "fs w (FilePath (config l)) \<noteq> None"
    and "stderr w1 = stderr w"
    and "CompressOldLogs (config l) \<Longrightarrow>
           CompressTask (FilePath (config l) @ ''.'' @ Format env (now env) RFC3339) \<in> set (goroutines w1)"
  using r
  by (auto simp: Logger_rotate_def File_Close_def os_Rename_def Let_def openFile_def os_OpenFile_def
      File_Stat_def split: option.splits prod.splits if_splits sum.splits)

lemma compressTask_ok:
  assumes "fs w b = Some d" "srcOpenFault env = None" "dstCreateFault env = None"
    "copyFault env = None" "flushFault env = None" "removeFault env b = None"
  shows "fs (compressTask env b w) b = None"
    and "fs (compressTask env b w) (b @ ''.gz'') =
           Some \<lparr>content = Gzip env (content d), modTime = now env\<rparr>"
    and "stderr (compressTask env b w) = stderr w"
  using assms by (simp_all add: compress_defs)


text \<open>
  C7. With compression enabled, a successful rotation starts the compression of the
  archive \<open>path.timestamp\<close>, which holds the bytes of the log file. When no step of the
  compression fails, afterwards the archive is gone and \<open>path.timestamp.gz\<close> exists, and
  decoding it (for a decoder that inverts the codec on these bytes) gives the archive's
  bytes back.
\<close>

theorem rotation_compression_roundtrip:
  "CompressOldLogs (config l) \<and> Logger_rotate env (l, w) = (None, l', w1) \<and>
   fs w (FilePath (config l)) = Some d \<and>
   srcOpenFault env2 = None \<and> dstCreateFault env2 = None \<and> copyFault env2 = None \<and>
   flushFault env2 = None \<and>
   removeFault env2 (FilePath (config l) @ ''.'' @ Format env (now env) RFC3339) = None \<and>
   gunzip (Gzip env2 (content d)) = Some (content d) \<longrightarrow>
     (let backupName = FilePath (config l) @ ''.'' @ Format env (now env) RFC3339;
          w2 = compressTask env2 backupName w1
      in CompressTask backupName \<in> set (goroutines w1) \<and>
         fs w1 backupName = Some d \<and>
         fs w2 backupName = None \<and>
         (\<exists>z. fs w2 (backupName @ ''.gz'') = Some z \<and> gunzip (content z) = Some (content d)) \<and>
         stderr w2 = stderr w)"
proof (intro impI, elim conjE)
  let ?b = "FilePath (config l) @ ''.'' @ Format env (now env) RFC3339"
  assume c: "CompressOldLogs (config l)" and r: "Logger_rotate env (l, w) = (None, l', w1)"
    and d: "fs w (FilePath (config l)) = Some d"
    and e: "srcOpenFault env2 = None" "dstCreateFault env2 = None" "copyFault env2 = None"
      "flushFault env2 = None" "removeFault env2 ?b = None"
    and g: "gunzip (Gzip env2 (content d)) = Some (content d)"
  from rotate_archives(1) [OF r] d have b: "fs w1 ?b = Some d" by simp
  from rotate_archives(4) [OF r c] have t: "CompressTask ?b \<in> set (goroutines w1)" .
  from rotate_archives(3) [OF r] have se: "stderr w1 = stderr w" .
  have "fs (compressTask env2 ?b w1) ?b = None" by (rule compressTask_ok(1) [OF b e])
  moreover have "fs (compressTask env2 ?b w1) (?b @ ''.gz'') =
      Some \<lparr>content = Gzip env2 (content d), modTime = now env2\<rparr>"
    by (rule compressTask_ok(2) [OF b e])
  moreover have "stderr (compressTask env2 ?b w1) = stderr w"
    using compressTask_ok(3) [OF b e] se by simp
  ultimately show "let backupName = ?b; w2 = compressTask env2 backupName w1
      in CompressTask backupName \<in> set (goroutines w1) \<and>
         fs w1 backupName = Some d \<and>
         fs w2 backupName = None \<and>
         (\<exists>z. fs w2 (backupName @ ''.gz'') = Some z \<and> gunzip (content z) = Some (content d)) \<and>
         stderr w2 = stderr w"
    using b t g by (simp add: Let_def)
qed

theorem rotation_compression_roundtrip_witness:
  "CompressOldLogs (config demoLogger) \<and>
   Logger_rotate quietEnv (demoLogger, demoWorld) =
     (None, demoLogger\<lparr>currentSize := 0\<rparr>,
      \<lparr>fs = [''app.log.2024-05-06T07:08:09Z'' \<mapsto>
               \<lparr>content = ''2024-05-06T07:00:00Z - [INFO]: up'' @ [newline],
                modTime = 1714978800000000000\<rparr>,
             ''app.log'' \<mapsto> \<lparr>content = [], modTime = 1714979289000000000\<rparr>],
       stderr = [],
       goroutines = [RotationChecker, CompressTask ''app.log.2024-05-06T07:08:09Z'', CleanupTask]\<rparr>) \<and>
   demoGunzip (Gzip quietEnv (''2024-05-06T07:00:00Z - [INFO]: up'' @ [newline])) =
     Some (''2024-05-06T07:00:00Z - [INFO]: up'' @ [newline]) \<and>
   fs (compressTask quietEnv ''app.log.2024-05-06T07:08:09Z''
        \<lparr>fs = [''app.log.2024-05-06T07:08:09Z'' \<mapsto>
               \<lparr>content = ''2024-05-06T07:00:00Z - [INFO]: up'' @ [newline],
                modTime = 1714978800000000000\<rparr>,
             ''app.log'' \<mapsto> \<lparr>content = [], modTime = 1714979289000000000\<rparr>],
         stderr = [],
         goroutines = [RotationChecker, CompressTask ''app.log.2024-05-06T07:08:09Z'', CleanupTask]\<rparr>)
      ''app.log.2024-05-06T07:08:09Z'' = None \<and>
   (\<exists>z. fs (compressTask quietEnv ''app.log.2024-05-06T07:08:09Z''
        \<lparr>fs = [''app.log.2024-05-06T07:08:09Z'' \<mapsto>
               \<lparr>content = ''2024-05-06T07:00:00Z - [INFO]: up'' @ [newline],
                modTime = 1714978800000000000\<rparr>,
             ''app.log'' \<mapsto> \<lparr>content = [], modTime = 1714979289000000000\<rparr>],
         stderr = [],
         goroutines = [RotationChecker, CompressTask ''app.log.2024-05-06T07:08:09Z'', CleanupTask]\<rparr>)
      ''app.log.2024-05-06T07:08:09Z.gz'' = Some z \<and>
      demoGunzip (content z) = Some (''2024-05-06T07:00:00Z - [INFO]: up'' @ [newline]))"
proof -
  let ?d = "\<lparr>content = ''2024-05-06T07:00:00Z - [INFO]: up'' @ [newline],
                modTime = 1714978800000000000\<rparr>"
  let ?w1 = "\<lparr>fs = [''app.log.2024-05-06T07:08:09Z'' \<mapsto> ?d,
             ''app.log'' \<mapsto> \<lparr>content = [], modTime = 1714979289000000000\<rparr>],
       stderr = [],
       goroutines = [RotationChecker, CompressTask ''app.log.2024-05-06T07:08:09Z'', CleanupTask]\<rparr>"
  have c: "CompressOldLogs (config demoLogger)" by (simp add: fixture_defs)
  have r: "Logger_rotate quietEnv (demoLogger, demoWorld) = (None, demoLogger\<lparr>currentSize := 0\<rparr>, ?w1)"
    by (simp add: rotate_defs open_defs fixture_defs fun_upd_twist)
  have d: "fs demoWorld (FilePath (config demoLogger)) = Some ?d" by (simp add: fixture_defs)
  have e: "srcOpenFault quietEnv = None" "dstCreateFault quietEnv = None" "copyFault quietEnv = None"
      "flushFault quietEnv = None"
      "removeFault quietEnv (FilePath (config demoLogger) @ ''.'' @
          Format quietEnv (now quietEnv) RFC3339) = None"
    by (simp_all add: quietEnv_def)
  have g: "demoGunzip (Gzip quietEnv (content ?d)) = Some (content ?d)"
    by (simp add: demoGunzip_def quietEnv_def storeGzip_def)
  have b: "FilePath (config demoLogger) @ ''.'' @ Format quietEnv (now quietEnv) RFC3339 =
      ''app.log.2024-05-06T07:08:09Z''"
    by (simp add: fixture_defs)
  note th = rotation_compression_roundtrip [where l = demoLogger and env = quietEnv
      and w = demoWorld and l' = "demoLogger\<lparr>currentSize := 0\<rparr>" and ?w1.0 = ?w1 and d = ?d
      and ?env2.0 = quietEnv and gunzip = demoGunzip, THEN mp,
      OF conjI [OF c conjI [OF r conjI [OF d conjI [OF e(1) conjI [OF e(2) conjI [OF e(3)
        conjI [OF e(4) conjI [OF e(5) g]]]]]]]], unfolded b Let_def]
  from th have x: "fs (compressTask quietEnv ''app.log.2024-05-06T07:08:09Z'' ?w1)
      ''app.log.2024-05-06T07:08:09Z'' = None"
    and y: "\<exists>z. fs (compressTask quietEnv ''app.log.2024-05-06T07:08:09Z'' ?w1)
      (''app.log.2024-05-06T07:08:09Z'' @ ''.gz'') = Some z \<and>
      demoGunzip (content z) = Some (content ?d)"
    by blast+
  from g have g': "demoGunzip (Gzip quietEnv (''2024-05-06T07:00:00Z - [INFO]: up'' @ [newline])) =
     Some (''2024-05-06T07:00:00Z - [INFO]: up'' @ [newline])"
    by simp
  from y have y': "\<exists>z. fs (compressTask quietEnv ''app.log.2024-05-06T07:08:09Z'' ?w1)
      ''app.log.2024-05-06T07:08:09Z.gz'' = Some z \<and>
      demoGunzip (content z) = Some (''2024-05-06T07:00:00Z - [INFO]: up'' @ [newline])"
    by simp
  from c r g' x y' show ?thesis by blast
qed

text \<open>
  C6. When the final flush of the gzip stream fails, after \<^verbatim>\<open>io.Copy\<close> has returned,
  \<open>compressFile\<close> still returns no error: the goroutine removes the archive, nothing is
  printed, and the \<open>.gz\<close> file holds a truncated stream.
\<close>

theorem compress_flush_failure_loses_source:
  "fs (snd (snd (Logger_rotate quietEnv (demoLogger, demoWorld)))) ''app.log.2024-05-06T07:08:09Z'' =
     Some \<lparr>content = ''2024-05-06T07:00:00Z - [INFO]: up'' @ [newline],
           modTime = 1714978800000000000\<rparr> \<and>
   compressFile flushFailEnv ''app.log.2024-05-06T07:08:09Z'' ''app.log.2024-05-06T07:08:09Z.gz''
       (snd (snd (Logger_rotate quietEnv (demoLogger, demoWorld)))) =
     (None,
      \<lparr>fs = [''app.log.2024-05-06T07:08:09Z'' \<mapsto>
               \<lparr>content = ''2024-05-06T07:00:00Z - [INFO]: up'' @ [newline],
                modTime = 1714978800000000000\<rparr>,
             ''app.log'' \<mapsto> \<lparr>content = [], modTime = 1714979289000000000\<rparr>,
             ''app.log.2024-05-06T07:08:09Z.gz'' \<mapsto>
               \<lparr>content = ''GZ2024-05-06'', modTime = 1714979289000000000\<rparr>],
       stderr = [],
       goroutines = [RotationChecker, CompressTask ''app.log.2024-05-06T07:08:09Z'', CleanupTask]\<rparr>) \<and>
   compressTask flushFailEnv ''app.log.2024-05-06T07:08:09Z''
       (snd (snd (Logger_rotate quietEnv (demoLogger, demoWorld)))) =
     \<lparr>fs = [''app.log'' \<mapsto> \<lparr>content = [], modTime = 1714979289000000000\<rparr>,
            ''app.log.2024-05-06T07:08:09Z.gz'' \<mapsto>
               \<lparr>content = ''GZ2024-05-06'', modTime = 1714979289000000000\<rparr>],
      stderr = [],
      goroutines = [RotationChecker, CompressTask ''app.log.2024-05-06T07:08:09Z'', CleanupTask]\<rparr> \<and>
   Gzip flushFailEnv (''2024-05-06T07:00:00Z - [INFO]: up'' @ [newline]) \<noteq> ''GZ2024-05-06''"
  by (simp add: flushFailEnv_def rotate_defs open_defs fixture_defs compress_defs fun_upd_twist)


text \<open>
  X2. When \<open>compressFile\<close> returns an error (the source cannot be opened, the destination
  cannot be created, or \<^verbatim>\<open>io.Copy\<close> fails), the goroutine prints it and leaves the
  uncompressed archive in place.
\<close>

theorem compress_reported_failure_keeps_source:
  "fs w b = Some d \<and>
   (srcOpenFault env \<noteq> None \<or> dstCreateFault env \<noteq> None \<or> copyFault env \<noteq> None) \<longrightarrow>
     fs (compressTask env b w) b = Some d \<and>
     (\<exists>e. stderr (compressTask env b w) =
            stderr w @ [''failed to compress log file: '' @ e @ [newline]])"
  by (auto simp: compress_defs split: option.splits)

theorem compress_reported_failure_keeps_source_witness:
  "fs sweepWorld ''app.log.2023-11-01T00:00:00Z.gz'' =
     Some \<lparr>content = ''GZa'', modTime = 1698796800000000000\<rparr> \<and>
   copyFault (quietEnv\<lparr>copyFault := Some (''GZ'', ''unexpected EOF'')\<rparr>) \<noteq> None \<and>
   fs (compressTask (quietEnv\<lparr>copyFault := Some (''GZ'', ''unexpected EOF'')\<rparr>)
         ''app.log.2023-11-01T00:00:00Z.gz'' sweepWorld) ''app.log.2023-11-01T00:00:00Z.gz'' =
     Some \<lparr>content = ''GZa'', modTime = 1698796800000000000\<rparr>"
proof -
  let ?env = "quietEnv\<lparr>copyFault := Some (''GZ'', ''unexpected EOF'')\<rparr>"
  have a: "fs sweepWorld ''app.log.2023-11-01T00:00:00Z.gz'' =
     Some \<lparr>content = ''GZa'', modTime = 1698796800000000000\<rparr>"
    by (simp add: sweepWorld_def)
  have b: "copyFault ?env \<noteq> None" by simp
  from compress_reported_failure_keeps_source [of sweepWorld "''app.log.2023-11-01T00:00:00Z.gz''"
      "\<lparr>content = ''GZa'', modTime = 1698796800000000000\<rparr>" ?env] a b
  show ?thesis by blast
qed

text \<open>
  X3. After a successful rotation the log file at the configured path is new and empty,
  and the counter is 0; the next successful write leaves in it exactly the line written,
  while the archive keeps the bytes from before the rotation.
\<close>

lemma rotate_fresh_file:
  assumes r: "Logger_rotate env (l, w) = (None, l1, w1)"
  shows "logFile l1 = Some \<lparr>fname = FilePath (config l), fclosed = False\<rparr>"
    and "fs w1 (FilePath (config l)) = Some \<lparr>content = [], modTime = now env\<rparr>"
    and "config l1 = config l" and "currentSize l1 = 0"
  using r
  by (auto simp: Logger_rotate_def File_Close_def os_Rename_def Let_def openFile_def os_OpenFile_def
      File_Stat_def Size_def split: option.splits prod.splits if_splits sum.splits)

theorem write_after_rotation_isolated:
  "Logger_rotate env (l, w) = (None, l1, w1) \<and> writeFault env2 = None \<and>
   formatLine env2 (config l1) level message = Inr line \<longrightarrow>
     currentSize l1 = 0 \<and>
     fs w1 (FilePath (config l)) = Some \<lparr>content = [], modTime = now env\<rparr> \<and>
     fs (snd (Logger_write env2 level message (l1, w1))) (FilePath (config l)) =
       Some \<lparr>content = line, modTime = now env2\<rparr> \<and>
     fs (snd (Logger_write env2 level message (l1, w1)))
        (FilePath (config l) @ ''.'' @ Format env (now env) RFC3339) =
       fs w (FilePath (config l))"
proof (intro impI, elim conjE)
  let ?p = "FilePath (config l)"
  let ?f = "\<lparr>fname = ?p, fclosed = False\<rparr>"
  let ?d = "\<lparr>content = [], modTime = now env\<rparr>"
  assume r: "Logger_rotate env (l, w) = (None, l1, w1)" and nf: "writeFault env2 = None"
    and fl: "formatLine env2 (config l1) level message = Inr line"
  have h: "logFile l1 = Some ?f" "\<not> fclosed ?f" "fs w1 (fname ?f) = Some ?d"
    using rotate_fresh_file [OF r] by simp_all
  note ws = write_success [OF h nf fl]
  have a: "fs (snd (Logger_write env2 level message (l1, w1))) ?p =
       Some \<lparr>content = line, modTime = now env2\<rparr>"
    by (simp add: ws)
  have b: "fs (snd (Logger_write env2 level message (l1, w1))) (?p @ ''.'' @ Format env (now env) RFC3339) =
       fs w ?p"
    using rotate_archives(1) [OF r] by (simp add: ws)
  from a b rotate_fresh_file [OF r] show "currentSize l1 = 0 \<and>
     fs w1 ?p = Some ?d \<and>
     fs (snd (Logger_write env2 level message (l1, w1))) ?p =
       Some \<lparr>content = line, modTime = now env2\<rparr> \<and>
     fs (snd (Logger_write env2 level message (l1, w1)))
        (?p @ ''.'' @ Format env (now env) RFC3339) = fs w ?p"
    by simp
qed

theorem write_after_rotation_isolated_witness:
  "Logger_rotate quietEnv (demoLogger, demoWorld) =
     (None, demoLogger\<lparr>currentSize := 0\<rparr>,
      \<lparr>fs = [''app.log.2024-05-06T07:08:09Z'' \<mapsto>
               \<lparr>content = ''2024-05-06T07:00:00Z - [INFO]: up'' @ [newline],
                modTime = 1714978800000000000\<rparr>,
             ''app.log'' \<mapsto> \<lparr>content = [], modTime = 1714979289000000000\<rparr>],
       stderr = [],
       goroutines = [RotationChecker, CompressTask ''app.log.2024-05-06T07:08:09Z'', CleanupTask]\<rparr>) \<and>
   fs (snd (Logger_write quietEnv LevelError ''after''
        (demoLogger\<lparr>currentSize := 0\<rparr>,
         \<lparr>fs = [''app.log.2024-05-06T07:08:09Z'' \<mapsto>
               \<lparr>content = ''2024-05-06T07:00:00Z - [INFO]: up'' @ [newline],
                modTime = 1714978800000000000\<rparr>,
             ''app.log'' \<mapsto> \<lparr>content = [], modTime = 1714979289000000000\<rparr>],
          stderr = [],
          goroutines = [RotationChecker, CompressTask ''app.log.2024-05-06T07:08:09Z'', CleanupTask]\<rparr>)))
      ''app.log'' =
     Some \<lparr>content = ''2024-05-06T07:08:09Z - [ERROR]: after'' @ [newline],
           modTime = 1714979289000000000\<rparr>"
proof -
  let ?l1 = "demoLogger\<lparr>currentSize := 0\<rparr>"
  let ?w1 = "\<lparr>fs = [''app.log.2024-05-06T07:08:09Z'' \<mapsto>
               \<lparr>content = ''2024-05-06T07:00:00Z - [INFO]: up'' @ [newline],
                modTime = 1714978800000000000\<rparr>,
             ''app.log'' \<mapsto> \<lparr>content = [], modTime = 1714979289000000000\<rparr>],
       stderr = [],
       goroutines = [RotationChecker, CompressTask ''app.log.2024-05-06T07:08:09Z'', CleanupTask]\<rparr>"
  let ?line = "''2024-05-06T07:08:09Z - [ERROR]: after'' @ [newline]"
  have r: "Logger_rotate quietEnv (demoLogger, demoWorld) = (None, ?l1, ?w1)"
    by (simp add: rotate_defs open_defs fixture_defs fun_upd_twist)
  have nf: "writeFault quietEnv = None" by (simp add: quietEnv_def)
  have fl: "formatLine quietEnv (config ?l1) LevelError ''after'' = Inr ?line"
    by (simp add: fixture_defs write_defs)
  note th = write_after_rotation_isolated [where env = quietEnv and l = demoLogger and w = demoWorld
      and ?l1.0 = ?l1 and ?w1.0 = ?w1 and ?env2.0 = quietEnv and level = LevelError
      and message = "''after''" and line = ?line, THEN mp, OF conjI [OF r conjI [OF nf fl]]]
  from th have "fs (snd (Logger_write quietEnv LevelError ''after'' (?l1, ?w1)))
      (FilePath (config demoLogger)) = Some \<lparr>content = ?line, modTime = now quietEnv\<rparr>"
    by blast
  then have "fs (snd (Logger_write quietEnv LevelError ''after'' (?l1, ?w1))) ''app.log'' =
      Some \<lparr>content = ?line, modTime = 1714979289000000000\<rparr>"
    by (simp add: fixture_defs)
  with r show ?thesis by blast
qed

text \<open>
  X4. The scenario of the specification: maximum size 100, five records of 33 bytes, one
  tick after the fourth write. After three writes the counter is 99 and a tick would not
  rotate; after four it is 132 and the tick rotates. The archive then holds exactly the
  first four lines and the live file exactly the fifth.
\<close>

theorem five_records_one_rotation:
  "(case New quietEnv (demoConfig\<lparr>CompressOldLogs := False\<rparr>) emptyWorld of
      (Inl e, w0) \<Rightarrow> False
    | (Inr l0, w0) \<Rightarrow>
        (let s1 = Logger_write quietEnv LevelInfo ''a'' (l0, w0);
             s2 = Logger_write quietEnv LevelInfo ''b'' s1;
             s3 = Logger_write quietEnv LevelInfo ''c'' s2;
             s4 = Logger_write quietEnv LevelInfo ''d'' s3;
             t = rotationTick quietEnv s4;
             s5 = Logger_write quietEnv LevelInfo ''e'' (snd t)
         in currentSize (fst s3) = 99 \<and>
            fst (rotationTick quietEnv s3) = NotCalled \<and>
            currentSize (fst s4) = 132 \<and>
            fst t = Called None \<and>
            fs (snd s5) ''app.log.2024-05-06T07:08:09Z'' =
              Some \<lparr>content =
                      ''2024-05-06T07:08:09Z - [INFO]: a'' @ [newline] @
                      ''2024-05-06T07:08:09Z - [INFO]: b'' @ [newline] @
                      ''2024-05-06T07:08:09Z - [INFO]: c'' @ [newline] @
                      ''2024-05-06T07:08:09Z - [INFO]: d'' @ [newline],
                    modTime = 1714979289000000000\<rparr> \<and>
            fs (snd s5) ''app.log'' =
              Some \<lparr>content = ''2024-05-06T07:08:09Z - [INFO]: e'' @ [newline],
                    modTime = 1714979289000000000\<rparr> \<and>
            currentSize (fst s5) = 33 \<and>
            stderr (snd s5) = []))"
  by (simp add: open_defs emptyWorld_def fixture_defs write_defs wrap64_def rotationTick_def
      rotate_defs fun_upd_twist)

subsection \<open>The rotation check\<close>







subsection \<open>The retention sweep\<close>

lemma eprint_fields:
  "fs (eprint m w) = fs w" "stderr (eprint m w) = stderr w @ [m]"
  "goroutines (eprint m w) = goroutines w"
  by (simp_all add: eprint_def)

lemma expired_fs_cong: "fs w' p = fs w p \<Longrightarrow> expired env c w' p = expired env c w p"
  by (simp add: expired_def os_Stat_def split: option.splits)

lemma expired_eprint: "expired env c (eprint m w) = expired env c w"
  by (rule ext, rule expired_fs_cong, simp add: eprint_fields)

lemma removeMessage_eprint: "removeMessage env c (eprint m w) = removeMessage env c w"
  by (rule ext) (simp add: removeMessage_def expired_eprint)

lemma expired_exists: "expired env c w p \<Longrightarrow> \<exists>d. fs w p = Some d"
  by (auto simp: expired_def os_Stat_def split: option.splits)

lemma not_expired_removed: "\<not> expired env c (w\<lparr>fs := (fs w)(p := None)\<rparr>) p"
  by (simp add: expired_def os_Stat_def split: option.splits)

lemma sweep_step_skip:
  "\<not> expired env c w f \<Longrightarrow> sweep env c (f # files) w = sweep env c files w"
  by (auto simp: expired_def split: sum.splits)

lemma sweep_step_fail:
  "expired env c w f \<Longrightarrow> removeFault env f = Some e \<Longrightarrow>
   sweep env c (f # files) w =
     sweep env c files (eprint (''failed to remove old log file: '' @ e @ [newline]) w)"
  by (auto simp: expired_def os_Remove_def split: sum.splits)

lemma sweep_step_remove:
  "expired env c w f \<Longrightarrow> removeFault env f = None \<Longrightarrow>
   sweep env c (f # files) w = sweep env c files (w\<lparr>fs := (fs w)(f := None)\<rparr>)"
  by (auto simp: expired_def os_Remove_def os_Stat_def split: sum.splits option.splits)

lemma sweep_effect:
  "fs (sweep env c files w) =
     (\<lambda>p. if p \<in> set files \<and> expired env c w p \<and> removeFault env p = None then None else fs w p) \<and>
   stderr (sweep env c files w) = stderr w @ List.map_filter (removeMessage env c w) files \<and>
   goroutines (sweep env c files w) = goroutines w"
proof (induction files arbitrary: w)
  case Nil
  show ?case by simp
next
  case (Cons f files)
  show ?case
  proof (cases "expired env c w f")
    case False
    then have m: "removeMessage env c w f = None" by (simp add: removeMessage_def)
    have st: "sweep env c (f # files) w = sweep env c files w"
      using False by (rule sweep_step_skip)
    have a: "fs (sweep env c (f # files) w) =
      (\<lambda>p. if p \<in> set (f # files) \<and> expired env c w p \<and> removeFault env p = None
           then None else fs w p)"
      unfolding st using Cons.IH [of w] False by (auto simp: fun_eq_iff)
    have b: "stderr (sweep env c (f # files) w) =
        stderr w @ List.map_filter (removeMessage env c w) (f # files)"
      unfolding st using Cons.IH [of w] m by simp
    have g: "goroutines (sweep env c (f # files) w) = goroutines w"
      unfolding st using Cons.IH [of w] by simp
    from a b g show ?thesis by blast
  next
    case True
    show ?thesis
    proof (cases "removeFault env f")
      case (Some e)
      define msg where "msg = ''failed to remove old log file: '' @ e @ [newline]"
      from True Some have m: "removeMessage env c w f = Some msg"
        by (simp add: removeMessage_def msg_def)
      have st: "sweep env c (f # files) w = sweep env c files (eprint msg w)"
        unfolding msg_def using True Some by (rule sweep_step_fail)
      note ih = Cons.IH [of "eprint msg w", unfolded expired_eprint removeMessage_eprint eprint_fields]
      have a: "fs (sweep env c (f # files) w) =
        (\<lambda>p. if p \<in> set (f # files) \<and> expired env c w p \<and> removeFault env p = None
           then None else fs w p)"
        unfolding st using ih Some by (auto simp: fun_eq_iff)
      have b: "stderr (sweep env c (f # files) w) =
        stderr w @ List.map_filter (removeMessage env c w) (f # files)"
        unfolding st using ih by (simp add: m)
      have g: "goroutines (sweep env c (f # files) w) = goroutines w"
        unfolding st using ih by simp
      from a b g show ?thesis by blast
    next
      case None
      let ?w = "w\<lparr>fs := (fs w)(f := None)\<rparr>"
      have e: "expired env c ?w p = (p \<noteq> f \<and> expired env c w p)" for p
      proof (cases "p = f")
        case True
        then show ?thesis using not_expired_removed [of env c w f] by simp
      next
        case False
        then have "fs ?w p = fs w p" by simp
        then have "expired env c ?w p = expired env c w p" by (rule expired_fs_cong)
        with False show ?thesis by simp
      qed
      have r: "removeMessage env c ?w p = removeMessage env c w p" for p
        using None by (cases "p = f") (simp_all add: removeMessage_def e)
      then have r': "removeMessage env c ?w = removeMessage env c w" by (rule ext)
      from True None have m: "removeMessage env c w f = None"
        by (simp add: removeMessage_def)
      have st: "sweep env c (f # files) w = sweep env c files ?w"
        using True None by (rule sweep_step_remove)
      have a: "fs (sweep env c (f # files) w) =
        (\<lambda>p. if p \<in> set (f # files) \<and> expired env c w p \<and> removeFault env p = None
           then None else fs w p)"
        unfolding st using Cons.IH [of ?w] None True by (auto simp: fun_eq_iff e)
      have b: "stderr (sweep env c (f # files) w) =
        stderr w @ List.map_filter (removeMessage env c w) (f # files)"
        unfolding st using Cons.IH [of ?w] by (simp add: r' m)
      have g: "goroutines (sweep env c (f # files) w) = goroutines w"
        unfolding st using Cons.IH [of ?w] by simp
      from a b g show ?thesis by blast
    qed
  qed
qed

lemma cutoffTime_plain:
  "- (2 ^ 63) < MaxAge c \<Longrightarrow> MaxAge c < 2 ^ 63 \<Longrightarrow> cutoffTime env c = now env - MaxAge c"
  by (simp add: cutoffTime_def wrap64_id)


text \<open>
  C9 (as amended). In a retention sweep over the files that the glob \<open>path.*.gz\<close>
  returned, the files deleted are exactly those of the list that can be examined, whose
  modification time is strictly before the cutoff (now minus the maximum age) and whose
  removal succeeds; every other file is untouched. A failing removal is printed to
  standard error; a failing \<^verbatim>\<open>os.Stat\<close> prints nothing. Neither stops the sweep: what
  happens to a file does not depend on the failures of the files before it.
\<close>

theorem retention_sweep:
  "Glob env (FilePath (config l) @ ''.*.gz'') (fs w) = Inr files \<longrightarrow>
     fs (cleanupOldLogs env l w) =
       (\<lambda>p. if p \<in> set files \<and> expired env (cutoffTime env (config l)) w p \<and>
               removeFault env p = None
            then None else fs w p) \<and>
     stderr (cleanupOldLogs env l w) =
       stderr w @ List.map_filter (removeMessage env (cutoffTime env (config l)) w) files \<and>
     (- (2 ^ 63) < MaxAge (config l) \<and> MaxAge (config l) < 2 ^ 63 \<longrightarrow>
        cutoffTime env (config l) = now env - MaxAge (config l))"
  using sweep_effect [of env "cutoffTime env (config l)" files w] cutoffTime_plain [of "config l" env]
  by (simp add: cleanupOldLogs_def)

lemmas sweep_defs = sweepEnv_def sweepWorld_def expired_def removeMessage_def os_Stat_def
  cutoffTime_def wrap64_def

text \<open>
  C9 as stated fails: an archive on which \<^verbatim>\<open>os.Stat\<close> fails is skipped without a word on
  standard error.
\<close>

theorem retention_sweep_counterexample:
  "os_Stat statFailEnv ''app.log.2023-11-03T00:00:00Z.gz'' sweepWorld = Inl ''permission denied'' \<and>
   stderr (cleanupOldLogs statFailEnv demoLogger sweepWorld) = [] \<and>
   fs (cleanupOldLogs statFailEnv demoLogger sweepWorld) ''app.log.2023-11-03T00:00:00Z.gz'' =
     Some \<lparr>content = ''GZc'', modTime = 1698969600000000000\<rparr>"
  by (simp add: statFailEnv_def sweep_defs cleanupOldLogs_def os_Remove_def eprint_def fixture_defs)

theorem retention_sweep_witness:
  "Glob sweepEnv (FilePath (config demoLogger) @ ''.*.gz'') (fs sweepWorld) =
     Inr [''app.log.2023-11-01T00:00:00Z.gz'', ''app.log.2023-11-02T00:00:00Z.gz'',
          ''app.log.2023-11-03T00:00:00Z.gz'', ''app.log.2023-11-04T00:00:00Z.gz'',
          ''app.log.2024-05-05T00:00:00Z.gz''] \<and>
   cutoffTime sweepEnv (config demoLogger) = 1714374489000000000 \<and>
   fs (cleanupOldLogs sweepEnv demoLogger sweepWorld) ''app.log.2023-11-01T00:00:00Z.gz'' = None \<and>
   fs (cleanupOldLogs sweepEnv demoLogger sweepWorld) ''app.log.2023-11-02T00:00:00Z.gz'' =
     Some \<lparr>content = ''GZb'', modTime = 1698883200000000000\<rparr> \<and>
   fs (cleanupOldLogs sweepEnv demoLogger sweepWorld) ''app.log.2023-11-03T00:00:00Z.gz'' =
     Some \<lparr>content = ''GZc'', modTime = 1698969600000000000\<rparr> \<and>
   fs (cleanupOldLogs sweepEnv demoLogger sweepWorld) ''app.log.2023-11-04T00:00:00Z.gz'' = None \<and>
   fs (cleanupOldLogs sweepEnv demoLogger sweepWorld) ''app.log.2024-05-05T00:00:00Z.gz'' =
     Some \<lparr>content = ''GZe'', modTime = 1714867200000000000\<rparr> \<and>
   fs (cleanupOldLogs sweepEnv demoLogger sweepWorld) ''app.log'' =
     Some \<lparr>content = [], modTime = 1714979000000000000\<rparr> \<and>
   stderr (cleanupOldLogs sweepEnv demoLogger sweepWorld) =
     [''failed to remove old log file: operation not permitted'' @ [newline]]"
proof -
  let ?files = "[''app.log.2023-11-01T00:00:00Z.gz'', ''app.log.2023-11-02T00:00:00Z.gz'',
          ''app.log.2023-11-03T00:00:00Z.gz'', ''app.log.2023-11-04T00:00:00Z.gz'',
          ''app.log.2024-05-05T00:00:00Z.gz'']"
  have g: "Glob sweepEnv (FilePath (config demoLogger) @ ''.*.gz'') (fs sweepWorld) = Inr ?files"
    by (simp add: sweepEnv_def fixture_defs)
  have age: "- (2 ^ 63) < MaxAge (config demoLogger) \<and> MaxAge (config demoLogger) < 2 ^ 63"
    by (simp add: fixture_defs)
  note th = retention_sweep [of sweepEnv demoLogger sweepWorld ?files, THEN mp, OF g]
  from th age have "cutoffTime sweepEnv (config demoLogger) =
      now sweepEnv - MaxAge (config demoLogger)"
    by blast
  then have c: "cutoffTime sweepEnv (config demoLogger) = 1714374489000000000"
    by (simp add: sweepEnv_def fixture_defs)
  from th have f: "fs (cleanupOldLogs sweepEnv demoLogger sweepWorld) p =
       (if p \<in> set ?files \<and> expired sweepEnv (cutoffTime sweepEnv (config demoLogger)) sweepWorld p \<and>
               removeFault sweepEnv p = None
            then None else fs sweepWorld p)" for p
    by (simp only:)
  from th have e: "stderr (cleanupOldLogs sweepEnv demoLogger sweepWorld) =
       stderr sweepWorld @
       List.map_filter (removeMessage sweepEnv (cutoffTime sweepEnv (config demoLogger)) sweepWorld) ?files"
    by blast
  have e': "stderr (cleanupOldLogs sweepEnv demoLogger sweepWorld) =
     [''failed to remove old log file: operation not permitted'' @ [newline]]"
    unfolding e c by (simp add: sweepEnv_def sweepWorld_def expired_def removeMessage_def os_Stat_def quietEnv_def)
  have f1: "fs (cleanupOldLogs sweepEnv demoLogger sweepWorld) ''app.log.2023-11-01T00:00:00Z.gz'' = None"
    unfolding f c by (simp add: sweepEnv_def sweepWorld_def expired_def os_Stat_def quietEnv_def)
  have f2: "fs (cleanupOldLogs sweepEnv demoLogger sweepWorld) ''app.log.2023-11-02T00:00:00Z.gz'' =
     Some \<lparr>content = ''GZb'', modTime = 1698883200000000000\<rparr>"
    unfolding f c by (simp add: sweepEnv_def sweepWorld_def expired_def os_Stat_def quietEnv_def)
  have f3: "fs (cleanupOldLogs sweepEnv demoLogger sweepWorld) ''app.log.2023-11-03T00:00:00Z.gz'' =
     Some \<lparr>content = ''GZc'', modTime = 1698969600000000000\<rparr>"
    unfolding f c by (simp add: sweepEnv_def sweepWorld_def expired_def os_Stat_def quietEnv_def)
  have f4: "fs (cleanupOldLogs sweepEnv demoLogger sweepWorld) ''app.log.2023-11-04T00:00:00Z.gz'' = None"
    unfolding f c by (simp add: sweepEnv_def sweepWorld_def expired_def os_Stat_def quietEnv_def)
  have f5: "fs (cleanupOldLogs sweepEnv demoLogger sweepWorld) ''app.log.2024-05-05T00:00:00Z.gz'' =
     Some \<lparr>content = ''GZe'', modTime = 1714867200000000000\<rparr>"
    unfolding f c by (simp add: sweepEnv_def sweepWorld_def expired_def os_Stat_def quietEnv_def)
  have f6: "fs (cleanupOldLogs sweepEnv demoLogger sweepWorld) ''app.log'' =
     Some \<lparr>content = [], modTime = 1714979000000000000\<rparr>"
    unfolding f c by (simp add: sweepEnv_def sweepWorld_def expired_def os_Stat_def quietEnv_def)
  from g c f1 f2 f3 f4 f5 f6 e' show ?thesis by blast
qed

text \<open>
  X5. Sweeping again changes no file: the files left by a sweep are left by the next one
  (with the same clock and the same failures).
\<close>

theorem sweep_files_idempotent:
  "fs (sweep env c files (sweep env c files w)) = fs (sweep env c files w)"
proof (rule ext)
  fix p
  let ?w = "sweep env c files w"
  note a = sweep_effect [of env c files w, THEN conjunct1]
  note b = sweep_effect [of env c files ?w, THEN conjunct1]
  show "fs (sweep env c files ?w) p = fs ?w p"
  proof (cases "p \<in> set files \<and> expired env c w p \<and> removeFault env p = None")
    case True
    then have "fs ?w p = None" by (simp add: a)
    then show ?thesis by (simp add: b)
  next
    case False
    then have same: "fs ?w p = fs w p" by (simp only: a if_False)
    then have "expired env c ?w p = expired env c w p" by (rule expired_fs_cong)
    with False have "\<not> (p \<in> set files \<and> expired env c ?w p \<and> removeFault env p = None)"
      by blast
    then show ?thesis by (simp only: b if_False)
  qed
qed

end
